theory Spec2Isabelle
  imports Main "HOL-Library.Word"
begin

section \<open>The Sweeper contract (contracts/Sweeper.sol)\<close>

text \<open>
  A shallow embedding of \<^verbatim>\<open>contracts/Sweeper.sol\<close>. The contract's storage is a record,
  everything outside the contract (token ledgers, native balances, the storage of other
  contracts) is an abstract world \<open>'w\<close>, and the behaviour of external code is a parameter
  (\<open>'w env\<close>). A transaction that reverts is a value (\<open>Reverted\<close>); its caller keeps the
  state it had before the call. Gas is not modelled.
\<close>

subsection \<open>Data\<close>

type_synonym address = "160 word"
type_synonym uint256 = "256 word"
type_synonym uint8 = "8 word"
type_synonym bytes = "8 word list"

text \<open>Storage of the contract: \<^verbatim>\<open>_status\<close> (ReentrancyGuard), \<^verbatim>\<open>aggregator\<close>,
  \<^verbatim>\<open>priceOracle\<close>; \<open>world\<close> is the rest of the chain.\<close>

record 'w state =
  status :: uint256
  aggregator :: address
  priceOracle :: address
  world :: 'w

text \<open>
  What is fixed at deployment: the contract's own address (\<^verbatim>\<open>address(this)\<close>), the
  immutable \<^verbatim>\<open>owner\<close>, and the compiled code. Of the latter one function is left open:
  \<open>decodeReason payload res\<close> is what \<^verbatim>\<open>_shortRevertReason\<close> returns for returned data
  \<open>res\<close> of 68 bytes or more, where it moves the memory pointer by four bytes and calls
  \<^verbatim>\<open>abi.decode(returnData, (string))\<close> (\<open>None\<close>: the decoder reverts). The outcome depends
  on the memory layout, where the payload just sent lies next to the returned data, and
  memory is not modelled.
\<close>

record deployment =
  self :: address
  owner :: address
  decodeReason :: "bytes \<Rightarrow> bytes \<Rightarrow> string option"

text \<open>The arguments of \<^verbatim>\<open>sweepAndSwap\<close>, in the order of the source.\<close>

record sweep_args =
  permit2 :: address
  permitCalldata :: bytes
  tokens :: "address list"
  minPricesUSD :: "uint256 list"
  maxPricesUSD :: "uint256 list"
  priceDecimals :: uint8
  targetToken :: address
  swapCallData :: "bytes list"
  partialSuccess :: bool

datatype event =
    Swept address address uint256 address uint256
  | SweepFailed address address string

text \<open>
  The payload of a call the contract makes. Opaque payloads (\<^verbatim>\<open>permitCalldata\<close>,
  \<^verbatim>\<open>swapCallData[i]\<close>, the empty payload of the native transfer) are \<open>Raw\<close> bytes. The
  payloads the contract builds with \<^verbatim>\<open>abi.encodeWithSelector\<close> are kept as the selector's
  name and the encoded arguments (the byte layout of the ABI is not modelled).
\<close>

datatype calldata =
    Raw bytes
  | Permit2TransferFrom address address address uint256
  | Erc20Transfer address uint256
  | Erc20Approve address uint256

text \<open>The public state-changing functions of the contract, as external code can call them
  (the first address is the caller, \<^verbatim>\<open>msg.sender\<close>).\<close>

datatype sweeper_call =
    CallSweepAndSwap address sweep_args
  | CallSetAggregator address address
  | CallSetPriceOracle address address

text \<open>
  The behaviour of one external call frame: it returns data and leaves a new world, or it
  reverts with data (then nothing it did persists), or it first calls back into the
  contract and continues with the success flag of that nested call and the state it
  finds afterwards. External code writes the world only; it reads the whole state (the
  contract's public getters).
\<close>

datatype 'w ext =
    Return bytes 'w
  | Revert bytes
  | Callback 'w sweeper_call "bool \<Rightarrow> 'w state \<Rightarrow> 'w ext"

text \<open>
  The environment: the code behind every address (target, caller, value, payload, current
  state), the two view functions the contract calls through an interface (\<open>None\<close>: the
  call reverts or its result does not decode), and native balances.
\<close>

record 'w env =
  ext_code :: "address \<Rightarrow> address \<Rightarrow> uint256 \<Rightarrow> calldata \<Rightarrow> 'w state \<Rightarrow> 'w ext"
  getPriceUSD :: "address \<Rightarrow> address \<Rightarrow> 'w state \<Rightarrow> (uint256 \<times> uint8) option"
  balanceOf :: "address \<Rightarrow> address \<Rightarrow> 'w state \<Rightarrow> uint256 option"
  nativeBalance :: "address \<Rightarrow> 'w \<Rightarrow> uint256"

text \<open>
  A ghost record of every external interaction of the contract, in order: the function of
  the source that made a low-level call, its target, value, payload, success flag and
  returned data; and the view calls.
\<close>

datatype call_site =
    ForwardPermit | Permit2Transfer | SafeTransfer | SafeApprove | CallAggregator | SendNative

datatype view_call = GetPriceUSD address address | BalanceOf address address

datatype ext_action =
    Called call_site address uint256 calldata bool bytes
  | Queried view_call

text \<open>The running transaction: state, the events emitted so far, the ghost trace.\<close>

record 'w exec =
  st :: "'w state"
  logs :: "event list"
  trace :: "ext_action list"

text \<open>
  Why a call reverted: \<^verbatim>\<open>require\<close>/\<^verbatim>\<open>revert\<close> with a message; an arithmetic panic of
  checked arithmetic; a reverting external view call; data that \<^verbatim>\<open>abi.decode\<close> rejects.
\<close>

datatype revert_reason =
    ErrorMsg string
  | Panic
  | ExternalRevert
  | DecodeFailure

datatype ('a, 'w) result =
    Reverted revert_reason "ext_action list"
  | Returned 'a "'w exec"

subsection \<open>Primitives\<close>

definition emit :: "event \<Rightarrow> 'w exec \<Rightarrow> 'w exec" where
  "emit e ex = ex\<lparr>logs := logs ex @ [e]\<rparr>"

definition record_action :: "ext_action \<Rightarrow> 'w exec \<Rightarrow> 'w exec" where
  "record_action a ex = ex\<lparr>trace := trace ex @ [a]\<rparr>"

definition set_world :: "'w \<Rightarrow> 'w exec \<Rightarrow> 'w exec" where
  "set_world w ex = ex\<lparr>st := (st ex)\<lparr>world := w\<rparr>\<rparr>"

text \<open>Checked arithmetic of Solidity 0.8 on \<^verbatim>\<open>uint256\<close>: \<open>None\<close> is the panic.\<close>

definition checked_pow10 :: "uint8 \<Rightarrow> uint256 option" where
  "checked_pow10 k = (if (10::nat) ^ unat k < 2 ^ 256 then Some (word_of_nat (10 ^ unat k)) else None)"

definition checked_mul :: "uint256 \<Rightarrow> uint256 \<Rightarrow> uint256 option" where
  "checked_mul a b = (if unat a * unat b < 2 ^ 256 then Some (a * b) else None)"

text \<open>\<^verbatim>\<open>abi.decode(data, (bool))\<close>: the first 32 bytes, read as a big-endian word, must
  be 0 or 1; shorter data or another value is rejected.\<close>

definition abi_decode_bool :: "bytes \<Rightarrow> bool option" where
  "abi_decode_bool data =
     (if length data < 32 then None
      else if take 31 data = replicate 31 0 then
        (if data ! 31 = 0 then Some False else if data ! 31 = 1 then Some True else None)
      else None)"

definition abi_encode_bool :: "bool \<Rightarrow> bytes" where
  "abi_encode_bool b = replicate 31 0 @ [if b then 1 else 0]"

text \<open>Running an external call frame, with \<open>cb\<close> the contract's entry point for nested
  calls (\<open>None\<close>: the nested call failed).\<close>

primrec run_ext ::
  "(sweeper_call \<Rightarrow> 'w exec \<Rightarrow> 'w exec option) \<Rightarrow> 'w ext \<Rightarrow> 'w exec \<Rightarrow> bytes + bytes \<times> 'w exec" where
  "run_ext cb (Return d w) ex = Inr (d, set_world w ex)"
| "run_ext cb (Revert d) ex = Inl d"
| "run_ext cb (Callback w c k) ex =
     (case cb c (set_world w ex) of
        None \<Rightarrow> run_ext cb (k False (st (set_world w ex))) (set_world w ex)
      | Some ex' \<Rightarrow> run_ext cb (k True (st ex')) ex')"

text \<open>A low-level \<^verbatim>\<open>target.call{value: v}(data)\<close> made by the contract: a failed call
  leaves the state as it was.\<close>

definition lowLevelCall ::
  "(sweeper_call \<Rightarrow> 'w exec \<Rightarrow> 'w exec option) \<Rightarrow> 'w env \<Rightarrow> deployment \<Rightarrow> call_site \<Rightarrow>
     address \<Rightarrow> uint256 \<Rightarrow> calldata \<Rightarrow> 'w exec \<Rightarrow> bool \<times> bytes \<times> 'w exec" where
  "lowLevelCall cb env dep site target v data ex =
     (case run_ext cb (ext_code env target (self dep) v data (st ex)) ex of
        Inl d \<Rightarrow> (False, d, record_action (Called site target v data False d) ex)
      | Inr (d, ex') \<Rightarrow> (True, d, record_action (Called site target v data True d) ex'))"

text \<open>\<^verbatim>\<open>IERC20(token).balanceOf(holder)\<close>, a view call through the interface.\<close>

definition queryBalanceOf :: "'w env \<Rightarrow> address \<Rightarrow> address \<Rightarrow> 'w exec \<Rightarrow> (uint256, 'w) result" where
  "queryBalanceOf env token holder ex =
     (let ex1 = record_action (Queried (BalanceOf token holder)) ex in
      case balanceOf env token holder (st ex) of
        None \<Rightarrow> Reverted ExternalRevert (trace ex1)
      | Some b \<Rightarrow> Returned b ex1)"

subsection \<open>Helpers of the contract\<close>

text \<open>The source names them with a leading underscore: \<^verbatim>\<open>_forwardPermit\<close>,
  \<^verbatim>\<open>_callAggregator\<close>, \<^verbatim>\<open>_safeTransfer\<close>, \<^verbatim>\<open>_safeApprove\<close>, \<^verbatim>\<open>_shortRevertReason\<close> and
  \<^verbatim>\<open>_permit2Transfer\<close>.\<close>

text \<open>
  \<^verbatim>\<open>_shortRevertReason(returnData)\<close>: the empty string for fewer than 68 bytes, the decoded
  string otherwise.
\<close>

definition shortRevertReason :: "deployment \<Rightarrow> bytes \<Rightarrow> bytes \<Rightarrow> string option" where
  "shortRevertReason dep payload returnData =
     (if length returnData < 68 then Some [] else decodeReason dep payload returnData)"

text \<open>
  \<^verbatim>\<open>_forwardPermit\<close>:
  \<^verbatim>\<open>require(ok, string(abi.encodePacked("PERMIT_CALL_FAILED:", _shortRevertReason(res))))\<close>.
  Solidity evaluates the arguments of \<^verbatim>\<open>require\<close> before it tests the condition, so the
  message is computed, and its decoder may revert, also when \<open>ok\<close> holds.
\<close>

definition forwardPermit ::
  "(sweeper_call \<Rightarrow> 'w exec \<Rightarrow> 'w exec option) \<Rightarrow> 'w env \<Rightarrow> deployment \<Rightarrow> address \<Rightarrow> bytes \<Rightarrow>
     'w exec \<Rightarrow> (unit, 'w) result" where
  "forwardPermit cb env dep p2 pcd ex =
     (case lowLevelCall cb env dep ForwardPermit p2 0 (Raw pcd) ex of
        (ok, res, ex') \<Rightarrow>
          (case shortRevertReason dep pcd res of
             None \<Rightarrow> Reverted DecodeFailure (trace ex')
           | Some reason \<Rightarrow>
               if ok then Returned () ex'
               else Reverted (ErrorMsg (''PERMIT_CALL_FAILED:'' @ reason)) (trace ex')))"

definition callAggregator ::
  "(sweeper_call \<Rightarrow> 'w exec \<Rightarrow> 'w exec option) \<Rightarrow> 'w env \<Rightarrow> deployment \<Rightarrow> bytes \<Rightarrow>
     'w exec \<Rightarrow> bool \<times> bytes \<times> 'w exec" where
  "callAggregator cb env dep data ex =
     lowLevelCall cb env dep CallAggregator (aggregator (st ex)) 0 (Raw data) ex"

definition safeTransfer ::
  "(sweeper_call \<Rightarrow> 'w exec \<Rightarrow> 'w exec option) \<Rightarrow> 'w env \<Rightarrow> deployment \<Rightarrow> address \<Rightarrow> address \<Rightarrow>
     uint256 \<Rightarrow> 'w exec \<Rightarrow> (unit, 'w) result" where
  "safeTransfer cb env dep token to val ex =
     (case lowLevelCall cb env dep SafeTransfer token 0 (Erc20Transfer to val) ex of
        (success, data, ex') \<Rightarrow>
          if \<not> success then Reverted (ErrorMsg ''TRANSFER_FAILED'') (trace ex')
          else if length data = 0 then Returned () ex'
          else (case abi_decode_bool data of
                  None \<Rightarrow> Reverted DecodeFailure (trace ex')
                | Some b \<Rightarrow> if b then Returned () ex'
                            else Reverted (ErrorMsg ''TRANSFER_FAILED'') (trace ex')))"

definition safeApprove ::
  "(sweeper_call \<Rightarrow> 'w exec \<Rightarrow> 'w exec option) \<Rightarrow> 'w env \<Rightarrow> deployment \<Rightarrow> address \<Rightarrow> address \<Rightarrow>
     uint256 \<Rightarrow> 'w exec \<Rightarrow> (unit, 'w) result" where
  "safeApprove cb env dep token spender val ex =
     (case lowLevelCall cb env dep SafeApprove token 0 (Erc20Approve spender val) ex of
        (success, data, ex') \<Rightarrow>
          if \<not> success then Reverted (ErrorMsg ''APPROVE_FAILED'') (trace ex')
          else if length data = 0 then Returned () ex'
          else (case abi_decode_bool data of
                  None \<Rightarrow> Reverted DecodeFailure (trace ex')
                | Some b \<Rightarrow> if b then Returned () ex'
                            else Reverted (ErrorMsg ''APPROVE_FAILED'') (trace ex')))"

definition permit2Transfer ::
  "(sweeper_call \<Rightarrow> 'w exec \<Rightarrow> 'w exec option) \<Rightarrow> 'w env \<Rightarrow> deployment \<Rightarrow> address \<Rightarrow> address \<Rightarrow>
     address \<Rightarrow> address \<Rightarrow> uint256 \<Rightarrow> 'w exec \<Rightarrow> bool \<times> 'w exec" where
  "permit2Transfer cb env dep p2 from to token amount ex =
     (case lowLevelCall cb env dep Permit2Transfer p2 0 (Permit2TransferFrom from to token amount) ex of
        (ok, res, ex') \<Rightarrow> (ok, ex'))"

subsection \<open>The price check (lines 124 to 141 of the loop body)\<close>

definition normalizePrice :: "uint256 \<Rightarrow> uint8 \<Rightarrow> uint8 \<Rightarrow> uint256 option" where
  "normalizePrice price decimals pd =
     (if decimals > pd then
        (case checked_pow10 (decimals - pd) of None \<Rightarrow> None | Some p \<Rightarrow> Some (price div p))
      else if decimals < pd then
        (case checked_pow10 (pd - decimals) of None \<Rightarrow> None | Some p \<Rightarrow> checked_mul price p)
      else Some price)"

definition priceCheck ::
  "'w env \<Rightarrow> address \<Rightarrow> uint8 \<Rightarrow> uint256 \<Rightarrow> uint256 \<Rightarrow> 'w exec \<Rightarrow> (bool, 'w) result" where
  "priceCheck env token pd minPrice maxPrice ex =
     (if priceOracle (st ex) \<noteq> 0 then
        (let ex1 = record_action (Queried (GetPriceUSD (priceOracle (st ex)) token)) ex in
         case getPriceUSD env (priceOracle (st ex)) token (st ex) of
           None \<Rightarrow> Reverted ExternalRevert (trace ex1)
         | Some (price, decimals) \<Rightarrow>
             if price = 0 then Returned False ex1
             else (case normalizePrice price decimals pd of
                     None \<Rightarrow> Reverted Panic (trace ex1)
                   | Some normalizedPrice \<Rightarrow>
                       if normalizedPrice < minPrice \<or> normalizedPrice > maxPrice
                       then Returned False ex1 else Returned True ex1))
      else Returned True ex)"

subsection \<open>One iteration of the loop (lines 117 to 217)\<close>

text \<open>The end of a failed iteration, after its \<^verbatim>\<open>SweepFailed\<close> event:
  \<^verbatim>\<open>if (!partialSuccess) revert(reason); else continue;\<close>\<close>

definition failToken ::
  "sweep_args \<Rightarrow> address \<Rightarrow> address \<Rightarrow> string \<Rightarrow> 'w exec \<Rightarrow> (unit, 'w) result" where
  "failToken args sender token reason ex =
     (if \<not> partialSuccess args then Reverted (ErrorMsg reason) (trace ex) else Returned () ex)"

text \<open>
  The body of the loop for index \<open>i\<close>: \<open>Returned\<close> is the end of the iteration
  (\<^verbatim>\<open>continue\<close> or the end of the body), \<open>Reverted\<close> aborts the transaction. The loop runs
  it for \<open>i < tokens.length\<close> only, after the two \<^verbatim>\<open>require\<close>s on the lengths, so every index
  is in range. The fields of \<^verbatim>\<open>Temp\<close> are the local names \<open>amountIn\<close>, \<open>balBefore\<close>,
  \<open>balAfter\<close>, \<open>success\<close>.
\<close>

text \<open>Lines 190 to 217: forwarding the result of a successful aggregator call, then the
  \<^verbatim>\<open>Swept\<close> event.\<close>

definition settle ::
  "(sweeper_call \<Rightarrow> 'w exec \<Rightarrow> 'w exec option) \<Rightarrow> 'w env \<Rightarrow> deployment \<Rightarrow> address \<Rightarrow> sweep_args \<Rightarrow>
     address \<Rightarrow> uint256 \<Rightarrow> uint256 \<Rightarrow> 'w exec \<Rightarrow> (unit, 'w) result" where
  "settle cb env dep sender args token amountIn balBefore ex6 =
     (if targetToken args = 0 then
        (let balanceEth = nativeBalance env (self dep) (world (st ex6)) in
         if balanceEth > 0 then
           (case lowLevelCall cb env dep SendNative sender balanceEth (Raw []) ex6 of
              (sent, ret, ex7) \<Rightarrow>
                (if \<not> sent then
                   failToken args sender token ''ETH_TRANSFER_FAILED''
                     (emit (SweepFailed sender token ''ETH_TRANSFER_FAILED'') ex7)
                 else Returned () (emit (Swept sender token amountIn (targetToken args) balanceEth) ex7)))
         else Returned () (emit (Swept sender token amountIn (targetToken args) 0) ex6))
      else
        (case queryBalanceOf env (targetToken args) (self dep) ex6 of
           Reverted r tr \<Rightarrow> Reverted r tr
         | Returned balAfter ex7 \<Rightarrow>
             (if balAfter > balBefore then
                (case safeTransfer cb env dep (targetToken args) sender (balAfter - balBefore) ex7 of
                   Reverted r tr \<Rightarrow> Reverted r tr
                 | Returned u ex8 \<Rightarrow>
                     Returned ()
                       (emit (Swept sender token amountIn (targetToken args) (balAfter - balBefore)) ex8))
              else
                (case safeTransfer cb env dep token sender amountIn ex7 of
                   Reverted r tr \<Rightarrow> Reverted r tr
                 | Returned u ex8 \<Rightarrow>
                     failToken args sender token ''NO_TARGET_RECEIVED''
                       (emit (SweepFailed sender token ''NO_TARGET_RECEIVED'') ex8)))))"

text \<open>Lines 172 to 188, then \<open>settle\<close>: the approval, the balance before, the aggregator
  call and the refund when it fails.\<close>

definition convert ::
  "(sweeper_call \<Rightarrow> 'w exec \<Rightarrow> 'w exec option) \<Rightarrow> 'w env \<Rightarrow> deployment \<Rightarrow> address \<Rightarrow> sweep_args \<Rightarrow>
     nat \<Rightarrow> address \<Rightarrow> uint256 \<Rightarrow> 'w exec \<Rightarrow> (unit, 'w) result" where
  "convert cb env dep sender args i token amountIn ex3 =
     (case safeApprove cb env dep token (aggregator (st ex3)) amountIn ex3 of
        Reverted r tr \<Rightarrow> Reverted r tr
      | Returned u ex4 \<Rightarrow>
          (case (if targetToken args \<noteq> 0 then queryBalanceOf env (targetToken args) (self dep) ex4
                 else Returned 0 ex4) of
             Reverted r tr \<Rightarrow> Reverted r tr
           | Returned balBefore ex5 \<Rightarrow>
               (case callAggregator cb env dep (swapCallData args ! i) ex5 of
                  (success, ret, ex6) \<Rightarrow>
                    (if \<not> success then
                       (case safeTransfer cb env dep token sender amountIn
                               (emit (SweepFailed sender token ''AGGREGATOR_CALL_FAILED'') ex6) of
                          Reverted r tr \<Rightarrow> Reverted r tr
                        | Returned u ex7 \<Rightarrow> failToken args sender token ''AGGREGATOR_CALL_FAILED'' ex7)
                     else settle cb env dep sender args token amountIn balBefore ex6))))"

text \<open>Lines 117 to 170, then \<open>convert\<close>.\<close>

definition sweepStep ::
  "(sweeper_call \<Rightarrow> 'w exec \<Rightarrow> 'w exec option) \<Rightarrow> 'w env \<Rightarrow> deployment \<Rightarrow> address \<Rightarrow> sweep_args \<Rightarrow>
     nat \<Rightarrow> 'w exec \<Rightarrow> (unit, 'w) result" where
  "sweepStep cb env dep sender args i ex0 =
     (let token = tokens args ! i in
      (case priceCheck env token (priceDecimals args) (minPricesUSD args ! i) (maxPricesUSD args ! i) ex0 of
         Reverted r tr \<Rightarrow> Reverted r tr
       | Returned okPrice ex1 \<Rightarrow>
           (if \<not> okPrice then
              failToken args sender token ''PRICE_CHECK_FAILED''
                (emit (SweepFailed sender token ''PRICE_OUT_OF_RANGE_OR_UNKNOWN'') ex1)
            else
              (case queryBalanceOf env token sender ex1 of
                 Reverted r tr \<Rightarrow> Reverted r tr
               | Returned amountIn ex2 \<Rightarrow>
                   (if amountIn = 0 then
                      failToken args sender token ''ZERO_BALANCE''
                        (emit (SweepFailed sender token ''ZERO_BALANCE'') ex2)
                    else
                      (case permit2Transfer cb env dep (permit2 args) sender (self dep) token amountIn ex2 of
                         (pulled, ex3) \<Rightarrow>
                           (if \<not> pulled then
                              failToken args sender token ''PERMIT2_TRANSFER_FAILED''
                                (emit (SweepFailed sender token ''PERMIT2_TRANSFER_FAILED'') ex3)
                            else if length (swapCallData args ! i) = 0 then
                              (case safeTransfer cb env dep token sender amountIn ex3 of
                                 Reverted r tr \<Rightarrow> Reverted r tr
                               | Returned u ex4 \<Rightarrow>
                                   failToken args sender token ''NO_SWAP_CALLDATA''
                                     (emit (SweepFailed sender token ''NO_SWAP_CALLDATA'') ex4))
                            else convert cb env dep sender args i token amountIn ex3)))))))"

subsection \<open>The loop, the function body, the guard\<close>

function sweepLoop ::
  "(sweeper_call \<Rightarrow> 'w exec \<Rightarrow> 'w exec option) \<Rightarrow> 'w env \<Rightarrow> deployment \<Rightarrow> address \<Rightarrow> sweep_args \<Rightarrow>
     nat \<Rightarrow> 'w exec \<Rightarrow> (unit, 'w) result" where
  "sweepLoop cb env dep sender args i ex =
     (if i < length (tokens args) then
        (case sweepStep cb env dep sender args i ex of
           Reverted r tr \<Rightarrow> Reverted r tr
         | Returned u ex' \<Rightarrow> sweepLoop cb env dep sender args (Suc i) ex')
      else Returned () ex)"
  by pat_completeness auto
termination
  by (relation "measure (\<lambda>(cb, env, dep, sender, args, i, ex). length (tokens args) - i)") auto

declare sweepLoop.simps [simp del]

text \<open>The body of \<^verbatim>\<open>sweepAndSwap\<close> (lines 108 to 218), inside the modifier.\<close>

definition sweepAndSwap_body ::
  "(sweeper_call \<Rightarrow> 'w exec \<Rightarrow> 'w exec option) \<Rightarrow> 'w env \<Rightarrow> deployment \<Rightarrow> address \<Rightarrow> sweep_args \<Rightarrow>
     'w exec \<Rightarrow> (unit, 'w) result" where
  "sweepAndSwap_body cb env dep sender args ex =
     (if \<not> (length (tokens args) = length (swapCallData args))
      then Reverted (ErrorMsg ''ARRAY_LENGTH_MISMATCH'') (trace ex)
      else if \<not> (length (tokens args) = length (minPricesUSD args)
                 \<and> length (tokens args) = length (maxPricesUSD args))
      then Reverted (ErrorMsg ''PRICE_ARRAY_MISMATCH'') (trace ex)
      else case (if length (permitCalldata args) > 0
                 then forwardPermit cb env dep (permit2 args) (permitCalldata args) ex
                 else Returned () ex) of
             Reverted r tr \<Rightarrow> Reverted r tr
           | Returned u ex1 \<Rightarrow> sweepLoop cb env dep sender args 0 ex1)"

text \<open>The modifier \<^verbatim>\<open>nonReentrant\<close> of \<^verbatim>\<open>ReentrancyGuard\<close>: \<^verbatim>\<open>require(_status == 1); _status = 2; _; _status = 1;\<close>\<close>

definition nonReentrant :: "('w exec \<Rightarrow> (unit, 'w) result) \<Rightarrow> 'w exec \<Rightarrow> (unit, 'w) result" where
  "nonReentrant body ex =
     (if \<not> (status (st ex) = 1) then Reverted (ErrorMsg ''REENTRANCY'') (trace ex)
      else case body (ex\<lparr>st := (st ex)\<lparr>status := 2\<rparr>\<rparr>) of
             Reverted r tr \<Rightarrow> Reverted r tr
           | Returned u ex' \<Rightarrow> Returned u (ex'\<lparr>st := (st ex')\<lparr>status := 1\<rparr>\<rparr>))"

text \<open>
  \<^verbatim>\<open>sweepAndSwap\<close>, called by \<open>sender\<close>. The state it starts from already holds the value
  sent with the call (the function is payable).
\<close>

definition sweepAndSwap ::
  "(sweeper_call \<Rightarrow> 'w exec \<Rightarrow> 'w exec option) \<Rightarrow> 'w env \<Rightarrow> deployment \<Rightarrow> address \<Rightarrow> sweep_args \<Rightarrow>
     'w exec \<Rightarrow> (unit, 'w) result" where
  "sweepAndSwap cb env dep sender args ex =
     nonReentrant (sweepAndSwap_body cb env dep sender args) ex"

text \<open>The two setters, behind \<^verbatim>\<open>onlyOwner\<close>.\<close>

definition setAggregator :: "deployment \<Rightarrow> address \<Rightarrow> address \<Rightarrow> 'w exec \<Rightarrow> (unit, 'w) result" where
  "setAggregator dep sender a ex =
     (if \<not> (sender = owner dep) then Reverted (ErrorMsg ''ONLY_OWNER'') (trace ex)
      else Returned () (ex\<lparr>st := (st ex)\<lparr>aggregator := a\<rparr>\<rparr>))"

definition setPriceOracle :: "deployment \<Rightarrow> address \<Rightarrow> address \<Rightarrow> 'w exec \<Rightarrow> (unit, 'w) result" where
  "setPriceOracle dep sender a ex =
     (if \<not> (sender = owner dep) then Reverted (ErrorMsg ''ONLY_OWNER'') (trace ex)
      else Returned () (ex\<lparr>st := (st ex)\<lparr>priceOracle := a\<rparr>\<rparr>))"

text \<open>
  The contract as external code reaches it, with \<open>d\<close> nested call frames left (the call
  stack of the machine is bounded; a call beyond the bound fails). A nested call that
  reverts gives \<open>None\<close> and leaves no effect.
\<close>

primrec entry :: "nat \<Rightarrow> 'w env \<Rightarrow> deployment \<Rightarrow> sweeper_call \<Rightarrow> 'w exec \<Rightarrow> 'w exec option" where
  "entry 0 env dep c ex = None"
| "entry (Suc d) env dep c ex =
     (case (case c of
              CallSweepAndSwap sender args \<Rightarrow> sweepAndSwap (entry d env dep) env dep sender args ex
            | CallSetAggregator sender a \<Rightarrow> setAggregator dep sender a ex
            | CallSetPriceOracle sender a \<Rightarrow> setPriceOracle dep sender a ex) of
        Reverted r tr \<Rightarrow> None
      | Returned u ex' \<Rightarrow> Some ex')"

text \<open>What the caller of a transaction is left with: a revert discards every effect.\<close>

fun after :: "'w exec \<Rightarrow> (unit, 'w) result \<Rightarrow> 'w exec" where
  "after ex (Reverted r tr) = ex"
| "after ex (Returned u ex') = ex'"

section \<open>Observations on a run\<close>

text \<open>
  What the claims talk about: the final exec of a call that returned, the trace of a call
  however it ended, the judgement of the transfer and approval wrappers on a call's
  outcome (\<^verbatim>\<open>success && (data.length == 0 || abi.decode(data, (bool)))\<close>), and the kinds of
  trace entries and events. The price gate as the specification words it
  (\<open>spec_normalize\<close>, \<open>claimed_gate\<close>) works on unbounded naturals; \<open>scale_fits\<close> says that
  the scaling of the code stays within 256 bits. The remaining definitions (\<open>relay\<close>,
  \<open>safe_action\<close>, \<open>well_traced\<close>, \<open>traced\<close>, \<open>mode_rel\<close>, \<open>loop_rel\<close>) are invariants
  used in the proofs.
\<close>

fun returned :: "('a, 'w) result \<Rightarrow> 'w exec option" where
  "returned (Reverted r tr) = None"
| "returned (Returned u ex) = Some ex"

definition judged_ok :: "bool \<Rightarrow> bytes \<Rightarrow> bool" where
  "judged_ok success data = (success \<and> (length data = 0 \<or> abi_decode_bool data = Some True))"

fun transfer_ok :: "ext_action \<Rightarrow> bool" where
  "transfer_ok (Called SafeTransfer tgt v d s r) = judged_ok s r"
| "transfer_ok a = True"

fun approve_ok :: "ext_action \<Rightarrow> bool" where
  "approve_ok (Called SafeApprove tgt v d s r) = judged_ok s r"
| "approve_ok a = True"

fun not_relay :: "ext_action \<Rightarrow> bool" where
  "not_relay (Called ForwardPermit tgt v d s r) = False"
| "not_relay a = True"

fun result_trace :: "('a, 'w) result \<Rightarrow> ext_action list" where
  "result_trace (Reverted r tr) = tr"
| "result_trace (Returned u ex) = trace ex"

definition safe_action :: "ext_action \<Rightarrow> bool" where
  "safe_action a = (transfer_ok a \<and> approve_ok a \<and> not_relay a)"

definition well_traced :: "'w exec \<Rightarrow> ('a, 'w) result \<Rightarrow> bool" where
  "well_traced ex R =
     (case R of
        Reverted r tr' \<Rightarrow> (\<exists>tr. tr' = trace ex @ tr \<and> list_all not_relay tr)
      | Returned u ex' \<Rightarrow> status (st ex') = status (st ex) \<and> logs ex' = logs ex
                            \<and> (\<exists>tr. trace ex' = trace ex @ tr \<and> list_all safe_action tr))"

definition traced :: "nat \<Rightarrow> 'w exec \<Rightarrow> ('a, 'w) result \<Rightarrow> bool" where
  "traced n ex R =
     (case R of
        Reverted r tr' \<Rightarrow> (\<exists>tr. tr' = trace ex @ tr \<and> list_all not_relay tr)
      | Returned u ex' \<Rightarrow> status (st ex') = status (st ex)
                            \<and> (\<exists>evs. logs ex' = logs ex @ evs \<and> length evs = n)
                            \<and> (\<exists>tr. trace ex' = trace ex @ tr \<and> list_all safe_action tr))"

fun is_Swept :: "event \<Rightarrow> bool" where
  "is_Swept (Swept u t a tt b) = True"
| "is_Swept (SweepFailed u t r) = False"

definition mode_rel :: "('a, 'w) result \<Rightarrow> ('a, 'w) result \<Rightarrow> bool" where
  "mode_rel RT RF =
     (case RT of
        Reverted r tr \<Rightarrow> (\<exists>r' tr'. RF = Reverted r' tr')
      | Returned u ex' \<Rightarrow>
          (if logs ex' \<noteq> [] \<and> is_Swept (last (logs ex')) then RF = RT
           else (\<exists>r' tr'. RF = Reverted r' tr')))"

definition loop_rel :: "nat \<Rightarrow> ('a, 'w) result \<Rightarrow> ('a, 'w) result \<Rightarrow> bool" where
  "loop_rel n0 RT RF =
     (case RT of
        Reverted r tr \<Rightarrow> (\<exists>r' tr'. RF = Reverted r' tr')
      | Returned u ex' \<Rightarrow>
          (if list_all is_Swept (drop n0 (logs ex')) then RF = RT
           else (\<exists>r' tr'. RF = Reverted r' tr')))"

definition relay ::
  "(sweeper_call \<Rightarrow> 'w exec \<Rightarrow> 'w exec option) \<Rightarrow> 'w env \<Rightarrow> deployment \<Rightarrow> sweep_args \<Rightarrow>
     'w exec \<Rightarrow> (unit, 'w) result" where
  "relay cb env dep args ex =
     (if length (permitCalldata args) > 0
      then forwardPermit cb env dep (permit2 args) (permitCalldata args) ex
      else Returned () ex)"

definition spec_normalize :: "nat \<Rightarrow> nat \<Rightarrow> nat \<Rightarrow> nat" where
  "spec_normalize price oracleDecimals requestedDecimals =
     (if oracleDecimals > requestedDecimals then price div 10 ^ (oracleDecimals - requestedDecimals)
      else if oracleDecimals < requestedDecimals then price * 10 ^ (requestedDecimals - oracleDecimals)
      else price)"

definition scale_fits :: "nat \<Rightarrow> nat \<Rightarrow> nat \<Rightarrow> bool" where
  "scale_fits price oracleDecimals requestedDecimals =
     (if oracleDecimals < requestedDecimals
      then price * 10 ^ (requestedDecimals - oracleDecimals) < 2 ^ 256
      else 10 ^ (oracleDecimals - requestedDecimals) < (2::nat) ^ 256)"

definition claimed_gate :: "(uint256 \<times> uint8) option \<Rightarrow> uint8 \<Rightarrow> uint256 \<Rightarrow> uint256 \<Rightarrow> bool" where
  "claimed_gate oracle_result requestedDecimals minPrice maxPrice =
     (case oracle_result of
        None \<Rightarrow> True
      | Some (price, oracleDecimals) \<Rightarrow>
          price \<noteq> 0
          \<and> unat minPrice \<le> spec_normalize (unat price) (unat oracleDecimals) (unat requestedDecimals)
          \<and> spec_normalize (unat price) (unat oracleDecimals) (unat requestedDecimals) \<le> unat maxPrice)"

section \<open>A concrete chain for the examples\<close>

text \<open>
  A small world in the shape of the repository's mocks, used to run the contract on
  concrete inputs. Tokens behave as \<^verbatim>\<open>MockERC20\<close> (balances and allowances;
  \<^verbatim>\<open>transfer\<close>, \<^verbatim>\<open>transferFrom\<close> and \<^verbatim>\<open>approve\<close> return \<^verbatim>\<open>true\<close> or revert), except
  \<open>TOKX\<close>, whose \<^verbatim>\<open>approve\<close> returns \<^verbatim>\<open>false\<close>. The registry is \<^verbatim>\<open>MockPermit2\<close>: its
  \<^verbatim>\<open>transferFrom\<close> forwards to the token, and it has no other function and no fallback,
  so of relayed payloads it accepts a call of \<^verbatim>\<open>transferFrom\<close> only, written here as the
  five bytes \<open>[1, from, to, token, amount]\<close>, and rejects every other payload with empty
  revert data. The price oracle is \<^verbatim>\<open>MockPriceOracle\<close>. The venue reads a four-byte payload
  \<open>[op, from, to, amount]\<close> instead of ABI-encoded arguments: \<open>op = 1\<close> is
  \<^verbatim>\<open>MockAggregator.swap\<close> (it takes \<open>amount\<close> of \<open>from\<close> through its allowance and mints
  the same amount of \<open>to\<close> to its caller, nothing when \<open>to\<close> is the zero address);
  \<open>op = 2\<close> is \<^verbatim>\<open>MockAggregatorReentrant.swap\<close> (it calls \<^verbatim>\<open>sweepAndSwap\<close> with empty
  arrays and reverts when that call failed); \<open>op = 3\<close> makes the same nested call and
  returns normally whatever its outcome; \<open>op = 4\<close> returns normally and does nothing;
  any other payload reverts. \<open>WALLET\<close> is a contract account that does not accept plain
  native transfers; every other account does.
\<close>

record chain =
  erc20 :: "address \<Rightarrow> address \<Rightarrow> uint256"
  allowed :: "address \<Rightarrow> address \<Rightarrow> address \<Rightarrow> uint256"
  native :: "address \<Rightarrow> uint256"
  prices :: "address \<Rightarrow> uint256 \<times> uint8"

abbreviation (input) USER :: address where "USER \<equiv> 17"
abbreviation (input) SWEEPER :: address where "SWEEPER \<equiv> 34"
abbreviation (input) OWNER :: address where "OWNER \<equiv> 51"
abbreviation (input) PERMIT2 :: address where "PERMIT2 \<equiv> 68"
abbreviation (input) VENUE :: address where "VENUE \<equiv> 85"
abbreviation (input) ORACLE :: address where "ORACLE \<equiv> 102"
abbreviation (input) WALLET :: address where "WALLET \<equiv> 119"
abbreviation (input) TOKA :: address where "TOKA \<equiv> 161"
abbreviation (input) TOKB :: address where "TOKB \<equiv> 177"
abbreviation (input) TOKT :: address where "TOKT \<equiv> 193"
abbreviation (input) TOKX :: address where "TOKX \<equiv> 209"

definition mock_transferFrom ::
  "address \<Rightarrow> address \<Rightarrow> address \<Rightarrow> address \<Rightarrow> uint256 \<Rightarrow> chain \<Rightarrow> chain option" where
  "mock_transferFrom token msgsender from to amount w =
     (if from \<noteq> msgsender \<and> allowed w token from msgsender < amount then None
      else if erc20 w token from < amount then None
      else Some (w\<lparr>allowed :=
                     (if from \<noteq> msgsender
                      then (allowed w)(token := (allowed w token)(from := (allowed w token from)
                              (msgsender := allowed w token from msgsender - amount)))
                      else allowed w),
                   erc20 := (erc20 w)(token := ((erc20 w token)(from := erc20 w token from - amount))
                              (to := ((erc20 w token)(from := erc20 w token from - amount)) to + amount))\<rparr>))"

definition mock_transfer :: "address \<Rightarrow> address \<Rightarrow> address \<Rightarrow> uint256 \<Rightarrow> chain \<Rightarrow> chain option" where
  "mock_transfer token msgsender to amount w =
     (if erc20 w token msgsender < amount then None
      else Some (w\<lparr>erc20 := (erc20 w)(token := ((erc20 w token)(msgsender := erc20 w token msgsender - amount))
                              (to := ((erc20 w token)(msgsender := erc20 w token msgsender - amount)) to + amount))\<rparr>))"

definition mock_approve :: "address \<Rightarrow> address \<Rightarrow> address \<Rightarrow> uint256 \<Rightarrow> chain \<Rightarrow> chain" where
  "mock_approve token msgsender spender amount w =
     w\<lparr>allowed := (allowed w)(token := (allowed w token)(msgsender := (allowed w token msgsender)
                       (spender := amount)))\<rparr>"

definition mock_mint :: "address \<Rightarrow> address \<Rightarrow> uint256 \<Rightarrow> chain \<Rightarrow> chain" where
  "mock_mint token to amount w =
     w\<lparr>erc20 := (erc20 w)(token := (erc20 w token)(to := erc20 w token to + amount))\<rparr>"

definition empty_args :: sweep_args where
  "empty_args = \<lparr>permit2 = 0, permitCalldata = [], tokens = [], minPricesUSD = [], maxPricesUSD = [],
     priceDecimals = 8, targetToken = 0, swapCallData = [], partialSuccess = False\<rparr>"

definition venue_code :: "address \<Rightarrow> bytes \<Rightarrow> chain \<Rightarrow> chain ext" where
  "venue_code caller payload w =
     (case payload of
        [op, f, t, a] \<Rightarrow>
          (if op = 1 then
             (case mock_transferFrom (ucast f) VENUE caller VENUE (ucast a) w of
                None \<Rightarrow> Revert []
              | Some w' \<Rightarrow> Return [] (if t \<noteq> 0 then mock_mint (ucast t) caller (ucast a) w' else w'))
           else if op = 2 then
             Callback w (CallSweepAndSwap VENUE empty_args)
               (\<lambda>ok s. if \<not> ok then Revert [] else Return [] (world s))
           else if op = 3 then
             Callback w (CallSweepAndSwap VENUE empty_args) (\<lambda>ok s. Return [] (world s))
           else if op = 4 then Return [] w
           else Revert [])
      | _ \<Rightarrow> Revert [])"

definition mock_code :: "address \<Rightarrow> address \<Rightarrow> uint256 \<Rightarrow> calldata \<Rightarrow> chain state \<Rightarrow> chain ext" where
  "mock_code target caller v data s =
     (case data of
        Permit2TransferFrom from to token amount \<Rightarrow>
          (if target = PERMIT2 then
             (case mock_transferFrom token PERMIT2 from to amount (world s) of
                None \<Rightarrow> Revert [] | Some w' \<Rightarrow> Return (abi_encode_bool True) w')
           else Revert [])
      | Erc20Transfer to amount \<Rightarrow>
          (case mock_transfer target caller to amount (world s) of
             None \<Rightarrow> Revert [] | Some w' \<Rightarrow> Return (abi_encode_bool True) w')
      | Erc20Approve spender amount \<Rightarrow>
          (if target = TOKX then Return (abi_encode_bool False) (world s)
           else Return (abi_encode_bool True) (mock_approve target caller spender amount (world s)))
      | Raw payload \<Rightarrow>
          (if target = VENUE then venue_code caller payload (world s)
           else if target = PERMIT2 then
             (case payload of
                [op, f, t, tok, a] \<Rightarrow>
                  (if op = 1 then
                     (case mock_transferFrom (ucast tok) PERMIT2 (ucast f) (ucast t) (ucast a) (world s) of
                        None \<Rightarrow> Revert [] | Some w' \<Rightarrow> Return (abi_encode_bool True) w')
                   else Revert [])
              | _ \<Rightarrow> Revert [])
           else if payload = [] \<and> target \<noteq> WALLET \<and> \<not> native (world s) caller < v then
             Return [] ((world s)\<lparr>native := ((native (world s))(caller := native (world s) caller - v))
                          (target := ((native (world s))(caller := native (world s) caller - v)) target + v)\<rparr>)
           else Revert []))"

definition mock_env :: "chain env" where
  "mock_env = \<lparr>ext_code = mock_code,
     getPriceUSD = (\<lambda>feed token s. if feed = ORACLE then Some (prices (world s) token) else None),
     balanceOf = (\<lambda>token holder s. Some (erc20 (world s) token holder)),
     nativeBalance = (\<lambda>a w. native w a)\<rparr>"

text \<open>No call of the examples returns 68 bytes or more, so the reason decoder is never
  reached; it is set to revert.\<close>

definition mock_dep :: deployment where
  "mock_dep = \<lparr>self = SWEEPER, owner = OWNER, decodeReason = (\<lambda>payload res. None)\<rparr>"

text \<open>The chain before a call: \<open>holder\<close> owns 100 \<open>TOKA\<close>, 50 \<open>TOKB\<close> and 10 \<open>TOKX\<close>, all
  approved to the registry; the contract holds \<open>held\<close> of the native asset; the oracle
  reports \<open>quote\<close> for every token.\<close>

definition chain0 :: "address \<Rightarrow> uint256 \<Rightarrow> uint256 \<times> uint8 \<Rightarrow> chain" where
  "chain0 holder held quote =
     \<lparr>erc20 = (\<lambda>t h. 0)(TOKA := (\<lambda>h. 0)(holder := 100), TOKB := (\<lambda>h. 0)(holder := 50),
                            TOKX := (\<lambda>h. 0)(holder := 10)),
      allowed = (\<lambda>t h sp. 0)(TOKA := (\<lambda>h sp. 0)(holder := (\<lambda>sp. 0)(PERMIT2 := 100)),
                               TOKB := (\<lambda>h sp. 0)(holder := (\<lambda>sp. 0)(PERMIT2 := 50)),
                               TOKX := (\<lambda>h sp. 0)(holder := (\<lambda>sp. 0)(PERMIT2 := 10))),
      native = (\<lambda>a. 0)(SWEEPER := held),
      prices = (\<lambda>t. quote)\<rparr>"

text \<open>The contract before a call, with the lock in state \<open>lock\<close> (1 is free, 2 is busy), the
  venue as aggregator and \<open>feed\<close> as price oracle (zero: none).\<close>

definition exec0 :: "uint256 \<Rightarrow> address \<Rightarrow> chain \<Rightarrow> chain exec" where
  "exec0 lock feed w =
     \<lparr>st = \<lparr>status = lock, aggregator = VENUE, priceOracle = feed, world = w\<rparr>, logs = [], trace = []\<rparr>"

text \<open>One batch: the assets with their swap payloads, no price bounds to speak of
  (\<open>[0, 2^256 - 1]\<close> is passed as \<open>[lo, hi]\<close>), the registry of the fixture.\<close>

definition batch ::
  "bytes \<Rightarrow> address list \<Rightarrow> uint256 \<Rightarrow> uint256 \<Rightarrow> address \<Rightarrow> bytes list \<Rightarrow> bool \<Rightarrow> sweep_args" where
  "batch pcd toks lo hi target payloads mode =
     \<lparr>permit2 = PERMIT2, permitCalldata = pcd, tokens = toks,
      minPricesUSD = map (\<lambda>t. lo) toks, maxPricesUSD = map (\<lambda>t. hi) toks,
      priceDecimals = 8, targetToken = target, swapCallData = payloads, partialSuccess = mode\<rparr>"

section \<open>Basic facts\<close>

lemma sweepLoop_end:
  "\<not> i < length (tokens args) \<Longrightarrow> sweepLoop cb env dep sender args i ex = Returned () ex"
  by (simp add: sweepLoop.simps)

lemma sweepLoop_step:
  "i < length (tokens args) \<Longrightarrow>
   sweepLoop cb env dep sender args i ex =
     (case sweepStep cb env dep sender args i ex of
        Reverted r tr \<Rightarrow> Reverted r tr
      | Returned u ex' \<Rightarrow> sweepLoop cb env dep sender args (Suc i) ex')"
  by (simp add: sweepLoop.simps)

lemma abi_decode_encode_bool: "abi_decode_bool (abi_encode_bool b) = Some b"
  by (simp add: abi_decode_bool_def abi_encode_bool_def nth_append)

lemma abi_encode_bool_nonempty: "length (abi_encode_bool b) \<noteq> 0"
  by (simp add: abi_encode_bool_def)

lemma abi_encode_bool_neq_Nil [simp]: "abi_encode_bool b \<noteq> []"
  by (simp add: abi_encode_bool_def)

lemma batch_mode [simp]:
  "(batch pcd toks lo hi tgt pl m)\<lparr>partialSuccess := b\<rparr> = batch pcd toks lo hi tgt pl b"
  by (simp add: batch_def)

lemmas mock_defs = mock_env_def mock_code_def venue_code_def mock_mint_def mock_approve_def
  mock_transfer_def mock_transferFrom_def mock_dep_def chain0_def exec0_def empty_args_def batch_def

lemmas sweeper_defs = sweepAndSwap_def nonReentrant_def sweepAndSwap_body_def sweepLoop.simps
  sweepStep_def convert_def settle_def failToken_def priceCheck_def normalizePrice_def
  checked_pow10_def checked_mul_def permit2Transfer_def safeApprove_def safeTransfer_def
  callAggregator_def forwardPermit_def shortRevertReason_def queryBalanceOf_def lowLevelCall_def record_action_def
  emit_def set_world_def abi_decode_encode_bool abi_encode_bool_nonempty setAggregator_def
  setPriceOracle_def Let_def

section \<open>The lock during external calls\<close>

text \<open>
  While the lock is busy a nested \<^verbatim>\<open>sweepAndSwap\<close> fails at the guard, and the setters
  touch neither the lock, the events nor the trace; so an external call made by the
  contract leaves all three as they were, whatever the external code does.
\<close>

lemma entry_locked:
  "status (st ex) \<noteq> 1 \<Longrightarrow> entry d env dep (CallSweepAndSwap sender args) ex = None"
  by (cases d) (simp_all add: sweepAndSwap_def nonReentrant_def)

lemma entry_frame:
  assumes "entry d env dep c ex = Some ex'" and "status (st ex) \<noteq> 1"
  shows "status (st ex') = status (st ex) \<and> logs ex' = logs ex \<and> trace ex' = trace ex"
proof (cases c)
  case (CallSweepAndSwap sender args)
  with assms show ?thesis by (simp add: entry_locked)
next
  case (CallSetAggregator sender a)
  with assms show ?thesis
    by (cases d) (auto simp: setAggregator_def split: if_splits)
next
  case (CallSetPriceOracle sender a)
  with assms show ?thesis
    by (cases d) (auto simp: setPriceOracle_def split: if_splits)
qed

lemma run_ext_frame:
  "status (st ex) \<noteq> 1 \<Longrightarrow> run_ext (entry d env dep) t ex = Inr (r, ex') \<Longrightarrow>
     status (st ex') = status (st ex) \<and> logs ex' = logs ex \<and> trace ex' = trace ex"
proof (induction t arbitrary: ex)
  case (Return x1 x2a)
  then show ?case by (auto simp: set_world_def)
next
  case (Revert x)
  then show ?case by simp
next
  case (Callback w c k)
  let ?ex1 = "set_world w ex"
  have l1: "status (st ?ex1) \<noteq> 1" and f1: "status (st ?ex1) = status (st ex)" "logs ?ex1 = logs ex" "trace ?ex1 = trace ex"
    using Callback.prems(1) by (simp_all add: set_world_def)
  show ?case
  proof (cases "entry d env dep c ?ex1")
    case None
    with Callback.prems have run: "run_ext (entry d env dep) (k False (st ?ex1)) ?ex1 = Inr (r, ex')" by simp
    have "k False (st ?ex1) \<in> range (k False)" "k False \<in> range k" by auto
    from Callback.IH[OF this(2) this(1) l1 run] f1 show ?thesis by simp
  next
    case (Some ex2)
    with Callback.prems have run: "run_ext (entry d env dep) (k True (st ex2)) ex2 = Inr (r, ex')" by simp
    from entry_frame[OF Some l1] have f2: "status (st ex2) = status (st ?ex1)" "logs ex2 = logs ?ex1" "trace ex2 = trace ?ex1" by simp_all
    then have l2: "status (st ex2) \<noteq> 1" using l1 by simp
    have "k True (st ex2) \<in> range (k True)" "k True \<in> range k" by auto
    from Callback.IH[OF this(2) this(1) l2 run] f1 f2 show ?thesis by simp
  qed
qed

lemma lowLevelCall_frame:
  "lowLevelCall (entry d env dep) env dep site tgt v data ex = (ok, r, ex') \<Longrightarrow> status (st ex) \<noteq> 1 \<Longrightarrow>
     status (st ex') = status (st ex) \<and> logs ex' = logs ex \<and> trace ex' = trace ex @ [Called site tgt v data ok r]"
  by (auto simp: lowLevelCall_def record_action_def split: sum.splits dest: run_ext_frame)

lemma emit_simps [simp]:
  "st (emit e ex) = st ex" "logs (emit e ex) = logs ex @ [e]" "trace (emit e ex) = trace ex"
  by (simp_all add: emit_def)

section \<open>What an iteration adds to the trace\<close>

text \<open>
  Under a busy lock every helper leaves the lock and the events alone and appends its own
  call to the trace; a wrapper that returns has recorded a call it judged successful.
  An iteration that ends adds exactly one event.
\<close>

lemma wt_safeTransfer:
  "status (st ex) \<noteq> 1 \<Longrightarrow> well_traced ex (safeTransfer (entry d env dep) env dep token to v ex)"
  by (auto simp: well_traced_def safeTransfer_def safe_action_def judged_ok_def
      split: prod.splits option.splits dest!: lowLevelCall_frame)

lemma wt_safeApprove:
  "status (st ex) \<noteq> 1 \<Longrightarrow> well_traced ex (safeApprove (entry d env dep) env dep token to v ex)"
  by (auto simp: well_traced_def safeApprove_def safe_action_def judged_ok_def
      split: prod.splits option.splits dest!: lowLevelCall_frame)

lemma wt_queryBalanceOf:
  "well_traced ex (queryBalanceOf env token holder ex)"
  by (auto simp: well_traced_def queryBalanceOf_def safe_action_def record_action_def Let_def
      split: prod.splits option.splits)

lemma wt_priceCheck:
  "well_traced ex (priceCheck env token pd mn mx ex)"
  by (auto simp: well_traced_def priceCheck_def safe_action_def record_action_def Let_def
      split: prod.splits option.splits)

lemma well_traced_traced: "well_traced ex R \<Longrightarrow> traced 0 ex R"
  by (auto simp: well_traced_def traced_def split: result.splits)

lemma safe_not_relay: "list_all safe_action tr \<Longrightarrow> list_all not_relay tr"
  by (simp add: list_all_iff safe_action_def)

lemma traced_bind:
  assumes "traced m ex R"
    and "\<And>u ex1. R = Returned u ex1 \<Longrightarrow> status (st ex1) = status (st ex) \<Longrightarrow> traced n ex1 (f u ex1)"
  shows "traced (m + n) ex (case R of Reverted r tr \<Rightarrow> Reverted r tr | Returned u ex1 \<Rightarrow> f u ex1)"
proof (cases R)
  case (Reverted r tr)
  with assms(1) show ?thesis by (simp add: traced_def)
next
  case (Returned u ex1)
  with assms(1) obtain tr evs where a: "status (st ex1) = status (st ex)" "logs ex1 = logs ex @ evs"
    "length evs = m" "trace ex1 = trace ex @ tr" "list_all safe_action tr"
    by (auto simp: traced_def)
  from assms(2)[OF Returned a(1)] have b: "traced n ex1 (f u ex1)" .
  show ?thesis
  proof (cases "f u ex1")
    case (Reverted r tr')
    with b a safe_not_relay[OF a(5)] Returned show ?thesis by (auto simp: traced_def)
  next
    case R2: (Returned u2 ex2)
    with b a Returned show ?thesis by (auto simp: traced_def)
  qed
qed

lemma traced_bind01:
  assumes "well_traced ex R"
    and "\<And>u ex1. R = Returned u ex1 \<Longrightarrow> status (st ex1) = status (st ex) \<Longrightarrow> traced n ex1 (f u ex1)"
  shows "traced n ex (case R of Reverted r tr \<Rightarrow> Reverted r tr | Returned u ex1 \<Rightarrow> f u ex1)"
  using traced_bind[OF well_traced_traced[OF assms(1)], where f=f and n=n] assms(2) by simp

lemma traced_fail: "traced (Suc 0) ex (failToken args sender token reason (emit e ex))"
  by (simp add: traced_def failToken_def)

lemma traced_ret: "traced (Suc 0) ex (Returned u (emit e ex))"
  by (simp add: traced_def)

lemma traced_after_emit:
  "traced 0 (emit e ex) R \<Longrightarrow> traced (Suc 0) ex R"
  by (auto simp: traced_def split: result.splits)

lemma traced_failToken0: "traced 0 ex (failToken args sender token reason ex)"
  by (simp add: traced_def failToken_def)

lemma traced_call:
  assumes "lowLevelCall (entry d env dep) env dep site tgt v data ex = (ok, r, ex1)"
    and "status (st ex) \<noteq> 1" and "site \<in> {Permit2Transfer, CallAggregator, SendNative}"
    and "traced n ex1 R"
  shows "traced n ex R"
proof -
  from lowLevelCall_frame[OF assms(1,2)] have f: "status (st ex1) = status (st ex)" "logs ex1 = logs ex"
    "trace ex1 = trace ex @ [Called site tgt v data ok r]" by simp_all
  have s: "safe_action (Called site tgt v data ok r)" "not_relay (Called site tgt v data ok r)"
    using assms(3) by (auto simp: safe_action_def)
  show ?thesis using assms(4) f s by (auto simp: traced_def split: result.splits)
qed

lemma traced_settle:
  assumes l: "status (st ex) \<noteq> 1"
  shows "traced (Suc 0) ex (settle (entry d env dep) env dep sender args token amountIn balBefore ex)"
proof (cases "targetToken args = 0")
  case True
  show ?thesis
  proof (cases "nativeBalance env (self dep) (world (st ex)) > 0")
    case False
    with True show ?thesis by (simp add: settle_def traced_ret)
  next
    case pos: True
    obtain sent ret ex7 where c: "lowLevelCall (entry d env dep) env dep SendNative sender
        (nativeBalance env (self dep) (world (st ex))) (Raw []) ex = (sent, ret, ex7)"
      by (cases "lowLevelCall (entry d env dep) env dep SendNative sender
        (nativeBalance env (self dep) (world (st ex))) (Raw []) ex") auto
    have "traced (Suc 0) ex7 (if \<not> sent then failToken args sender token ''ETH_TRANSFER_FAILED''
                     (emit (SweepFailed sender token ''ETH_TRANSFER_FAILED'') ex7)
                 else Returned () (emit (Swept sender token amountIn (targetToken args) (nativeBalance env (self dep) (world (st ex)))) ex7))"
      by (simp add: traced_fail traced_ret)
    from traced_call[OF c l _ this] True pos c show ?thesis by (simp add: settle_def)
  qed
next
  case False
  with l show ?thesis
    by (auto simp: settle_def intro!: traced_bind01 wt_queryBalanceOf wt_safeTransfer traced_ret traced_fail)
qed

lemma wt_Returned: "well_traced ex (Returned u ex)"
  by (simp add: well_traced_def)

lemma traced_refund_fail:
  assumes "status (st ex) \<noteq> 1"
  shows "traced (Suc 0) ex
     (case safeTransfer (entry d env dep) env dep token sender amountIn (emit e ex) of
        Reverted r tr \<Rightarrow> Reverted r tr
      | Returned u ex7 \<Rightarrow> failToken args sender token reason ex7)"
proof -
  have "traced 0 (emit e ex)
     (case safeTransfer (entry d env dep) env dep token sender amountIn (emit e ex) of
        Reverted r tr \<Rightarrow> Reverted r tr
      | Returned u ex7 \<Rightarrow> failToken args sender token reason ex7)"
    using assms by (auto intro!: traced_bind01 wt_safeTransfer traced_failToken0)
  then show ?thesis by (rule traced_after_emit)
qed

lemma traced_after_call:
  assumes l: "status (st ex) \<noteq> 1"
  shows "traced (Suc 0) ex
     (case callAggregator (entry d env dep) env dep data ex of
        (success, ret, ex6) \<Rightarrow>
          (if \<not> success then
             (case safeTransfer (entry d env dep) env dep token sender amountIn
                     (emit (SweepFailed sender token ''AGGREGATOR_CALL_FAILED'') ex6) of
                Reverted r tr \<Rightarrow> Reverted r tr
              | Returned u ex7 \<Rightarrow> failToken args sender token ''AGGREGATOR_CALL_FAILED'' ex7)
           else settle (entry d env dep) env dep sender args token amountIn balBefore ex6))"
proof -
  obtain success ret ex6 where c: "lowLevelCall (entry d env dep) env dep CallAggregator (aggregator (st ex)) 0 (Raw data) ex = (success, ret, ex6)"
    by (cases "lowLevelCall (entry d env dep) env dep CallAggregator (aggregator (st ex)) 0 (Raw data) ex") auto
  from lowLevelCall_frame[OF c l] l have l6: "status (st ex6) \<noteq> 1" by simp
  have "traced (Suc 0) ex6 (if \<not> success then
             (case safeTransfer (entry d env dep) env dep token sender amountIn
                     (emit (SweepFailed sender token ''AGGREGATOR_CALL_FAILED'') ex6) of
                Reverted r tr \<Rightarrow> Reverted r tr
              | Returned u ex7 \<Rightarrow> failToken args sender token ''AGGREGATOR_CALL_FAILED'' ex7)
           else settle (entry d env dep) env dep sender args token amountIn balBefore ex6)"
    using l6 by (simp add: traced_refund_fail traced_settle)
  from traced_call[OF c l _ this] c show ?thesis by (simp add: callAggregator_def)
qed

lemma traced_convert:
  assumes l: "status (st ex) \<noteq> 1"
  shows "traced (Suc 0) ex (convert (entry d env dep) env dep sender args i token amountIn ex)"
  unfolding convert_def using l
  by (auto intro!: traced_bind01 wt_safeApprove wt_queryBalanceOf wt_Returned traced_after_call)

lemma traced_sweepStep:
  assumes l: "status (st ex) \<noteq> 1"
  shows "traced (Suc 0) ex (sweepStep (entry d env dep) env dep sender args i ex)"
proof -
  have pull: "traced (Suc 0) ex2
     (case permit2Transfer (entry d env dep) env dep (permit2 args) sender (self dep) token amountIn ex2 of
        (pulled, ex3) \<Rightarrow>
          (if \<not> pulled then
             failToken args sender token ''PERMIT2_TRANSFER_FAILED''
               (emit (SweepFailed sender token ''PERMIT2_TRANSFER_FAILED'') ex3)
           else if length (swapCallData args ! i) = 0 then
             (case safeTransfer (entry d env dep) env dep token sender amountIn ex3 of
                Reverted r tr \<Rightarrow> Reverted r tr
              | Returned u ex4 \<Rightarrow>
                  failToken args sender token ''NO_SWAP_CALLDATA''
                    (emit (SweepFailed sender token ''NO_SWAP_CALLDATA'') ex4))
           else convert (entry d env dep) env dep sender args i token amountIn ex3))"
    if l2: "status (st ex2) \<noteq> 1" for ex2 :: "'a exec" and token amountIn
  proof -
    obtain pulled ret ex3 where c: "lowLevelCall (entry d env dep) env dep Permit2Transfer (permit2 args) 0
        (Permit2TransferFrom sender (self dep) token amountIn) ex2 = (pulled, ret, ex3)"
      by (cases "lowLevelCall (entry d env dep) env dep Permit2Transfer (permit2 args) 0
        (Permit2TransferFrom sender (self dep) token amountIn) ex2") auto
    from lowLevelCall_frame[OF c l2] l2 have l3: "status (st ex3) \<noteq> 1" by simp
    have "traced (Suc 0) ex3 (if \<not> pulled then
             failToken args sender token ''PERMIT2_TRANSFER_FAILED''
               (emit (SweepFailed sender token ''PERMIT2_TRANSFER_FAILED'') ex3)
           else if length (swapCallData args ! i) = 0 then
             (case safeTransfer (entry d env dep) env dep token sender amountIn ex3 of
                Reverted r tr \<Rightarrow> Reverted r tr
              | Returned u ex4 \<Rightarrow>
                  failToken args sender token ''NO_SWAP_CALLDATA''
                    (emit (SweepFailed sender token ''NO_SWAP_CALLDATA'') ex4))
           else convert (entry d env dep) env dep sender args i token amountIn ex3)"
      using l3 by (auto intro!: traced_fail traced_bind01 wt_safeTransfer traced_convert)
    from traced_call[OF c l2 _ this] c show ?thesis by (simp add: permit2Transfer_def)
  qed
  show ?thesis
    unfolding sweepStep_def Let_def using l
    by (auto intro!: traced_bind01 wt_priceCheck wt_queryBalanceOf traced_fail pull)
qed

lemma traced_sweepLoop:
  fixes ex :: "'w exec"
  shows "status (st ex) \<noteq> 1 \<Longrightarrow>
   traced (length (tokens args) - i) ex (sweepLoop (entry d env dep) env dep sender args i ex)"
proof (induction "length (tokens args) - i" arbitrary: i ex)
  case 0
  then show ?case by (simp add: sweepLoop_end traced_def)
next
  case (Suc n)
  then have lt: "i < length (tokens args)" and n: "n = length (tokens args) - Suc i" by simp_all
  have "traced (Suc 0 + n) ex
     (case sweepStep (entry d env dep) env dep sender args i ex of
        Reverted r tr \<Rightarrow> Reverted r tr
      | Returned u ex' \<Rightarrow> sweepLoop (entry d env dep) env dep sender args (Suc i) ex')"
  proof (rule traced_bind)
    show "traced (Suc 0) ex (sweepStep (entry d env dep) env dep sender args i ex)"
      using Suc.prems by (rule traced_sweepStep)
  next
    fix u and ex1 :: "'w exec"
    assume "status (st ex1) = status (st ex)"
    with Suc.prems have "status (st ex1) \<noteq> 1" by simp
    from Suc.hyps(1)[OF n this] n
    show "traced n ex1 (sweepLoop (entry d env dep) env dep sender args (Suc i) ex1)" by simp
  qed
  with lt Suc.hyps(2) show ?case by (simp add: sweepLoop_step)
qed

section \<open>Atomic and best-effort mode\<close>

text \<open>
  \<open>mode_rel\<close> relates the best-effort run of a piece of the loop body to its atomic run:
  they agree when the best-effort run ends with a \<^verbatim>\<open>Swept\<close> event, and the atomic run
  reverts in every other case.
\<close>

lemma mode_rel_bind:
  assumes "\<And>u ex1. H = Returned u ex1 \<Longrightarrow> mode_rel (f u ex1) (g u ex1)"
  shows "mode_rel (case H of Reverted r tr \<Rightarrow> Reverted r tr | Returned u ex1 \<Rightarrow> f u ex1)
                  (case H of Reverted r tr \<Rightarrow> Reverted r tr | Returned u ex1 \<Rightarrow> g u ex1)"
  using assms by (cases H) (simp_all add: mode_rel_def)

lemma mode_rel_pair:
  assumes "\<And>a b. H = (a, b) \<Longrightarrow> mode_rel (f a b) (g a b)"
  shows "mode_rel (case H of (a, b) \<Rightarrow> f a b) (case H of (a, b) \<Rightarrow> g a b)"
  using assms by (cases H) simp

lemma mode_rel_if:
  assumes "c \<Longrightarrow> mode_rel A A'" and "\<not> c \<Longrightarrow> mode_rel B B'"
  shows "mode_rel (if c then A else B) (if c then A' else B')"
  using assms by simp

lemma mode_rel_fail:
  "mode_rel (failToken (args\<lparr>partialSuccess := True\<rparr>) sender token reason (emit (SweepFailed x y z) ex))
            (failToken (args\<lparr>partialSuccess := False\<rparr>) sender token reason (emit (SweepFailed x y z) ex))"
  by (simp add: mode_rel_def failToken_def)

lemma mode_rel_ret:
  "mode_rel (Returned u (emit (Swept x y z v w) ex)) (Returned u (emit (Swept x y z v w) ex))"
  by (simp add: mode_rel_def)

lemma mode_rel_refund:
  assumes "status (st ex) \<noteq> 1"
  shows "mode_rel
     (case safeTransfer (entry d env dep) env dep token sender amountIn (emit (SweepFailed x y z) ex) of
        Reverted r tr \<Rightarrow> Reverted r tr
      | Returned u ex7 \<Rightarrow> failToken (args\<lparr>partialSuccess := True\<rparr>) sender token reason ex7)
     (case safeTransfer (entry d env dep) env dep token sender amountIn (emit (SweepFailed x y z) ex) of
        Reverted r tr \<Rightarrow> Reverted r tr
      | Returned u ex7 \<Rightarrow> failToken (args\<lparr>partialSuccess := False\<rparr>) sender token reason ex7)"
proof (cases "safeTransfer (entry d env dep) env dep token sender amountIn (emit (SweepFailed x y z) ex)")
  case (Reverted r tr)
  then show ?thesis by (simp add: mode_rel_def)
next
  case (Returned u ex7)
  with wt_safeTransfer[of "emit (SweepFailed x y z) ex" d env dep token sender amountIn] assms
  have "logs ex7 = logs ex @ [SweepFailed x y z]" by (simp add: well_traced_def)
  with Returned show ?thesis by (simp add: mode_rel_def failToken_def)
qed

lemma mode_rel_settle:
  "mode_rel (settle cb env dep sender (args\<lparr>partialSuccess := True\<rparr>) token amountIn balBefore ex)
            (settle cb env dep sender (args\<lparr>partialSuccess := False\<rparr>) token amountIn balBefore ex)"
  unfolding settle_def Let_def
  by (auto intro!: mode_rel_bind mode_rel_pair mode_rel_if mode_rel_fail mode_rel_ret)

lemma mode_rel_bind_wt:
  assumes "well_traced ex H"
    and "\<And>u ex1. H = Returned u ex1 \<Longrightarrow> status (st ex1) = status (st ex) \<Longrightarrow> mode_rel (f u ex1) (g u ex1)"
  shows "mode_rel (case H of Reverted r tr \<Rightarrow> Reverted r tr | Returned u ex1 \<Rightarrow> f u ex1)
                  (case H of Reverted r tr \<Rightarrow> Reverted r tr | Returned u ex1 \<Rightarrow> g u ex1)"
  using assms by (cases H) (simp_all add: mode_rel_def well_traced_def)

lemma mode_rel_callAggregator:
  assumes "status (st ex) \<noteq> 1"
    and "\<And>ok r ex1. status (st ex1) = status (st ex) \<Longrightarrow> mode_rel (f ok r ex1) (g ok r ex1)"
  shows "mode_rel (case callAggregator (entry d env dep) env dep data ex of (ok, r, ex1) \<Rightarrow> f ok r ex1)
                  (case callAggregator (entry d env dep) env dep data ex of (ok, r, ex1) \<Rightarrow> g ok r ex1)"
  using assms
  by (auto simp: callAggregator_def split: prod.splits dest!: lowLevelCall_frame)

lemma mode_rel_permit2Transfer:
  assumes "status (st ex) \<noteq> 1"
    and "\<And>ok ex1. status (st ex1) = status (st ex) \<Longrightarrow> mode_rel (f ok ex1) (g ok ex1)"
  shows "mode_rel (case permit2Transfer (entry d env dep) env dep p2 fr to tok v ex of (ok, ex1) \<Rightarrow> f ok ex1)
                  (case permit2Transfer (entry d env dep) env dep p2 fr to tok v ex of (ok, ex1) \<Rightarrow> g ok ex1)"
  using assms
  by (auto simp: permit2Transfer_def split: prod.splits dest!: lowLevelCall_frame)

lemmas mode_rel_safeApprove =
  mode_rel_bind_wt [where H = "safeApprove (entry d env dep) env dep token sp v ex" and ex = ex, OF wt_safeApprove] for d env dep token sp v ex

lemmas mode_rel_safeTransfer =
  mode_rel_bind_wt [where H = "safeTransfer (entry d env dep) env dep token sp v ex" and ex = ex, OF wt_safeTransfer] for d env dep token sp v ex

lemmas mode_rel_queryBalanceOf =
  mode_rel_bind_wt [where H = "queryBalanceOf env token h ex" and ex = ex, OF wt_queryBalanceOf] for env token h ex

lemmas mode_rel_priceCheck =
  mode_rel_bind_wt [where H = "priceCheck env token pd mn mx ex" and ex = ex, OF wt_priceCheck] for env token pd mn mx ex

lemma mode_rel_convert:
  assumes "status (st ex) \<noteq> 1"
  shows "mode_rel (convert (entry d env dep) env dep sender (args\<lparr>partialSuccess := True\<rparr>) i token amountIn ex)
            (convert (entry d env dep) env dep sender (args\<lparr>partialSuccess := False\<rparr>) i token amountIn ex)"
  unfolding convert_def using assms
  by (auto intro!: mode_rel_safeApprove mode_rel_queryBalanceOf mode_rel_callAggregator mode_rel_if mode_rel_refund mode_rel_settle)

lemma mode_rel_sweepStep:
  assumes "status (st ex) \<noteq> 1"
  shows "mode_rel (sweepStep (entry d env dep) env dep sender (args\<lparr>partialSuccess := True\<rparr>) i ex)
            (sweepStep (entry d env dep) env dep sender (args\<lparr>partialSuccess := False\<rparr>) i ex)"
  unfolding sweepStep_def Let_def using assms
  by (auto intro!: mode_rel_priceCheck mode_rel_queryBalanceOf mode_rel_safeTransfer mode_rel_permit2Transfer mode_rel_if mode_rel_fail mode_rel_convert)

lemma loop_rel_sweepLoop:
  fixes ex :: "'w exec"
  shows "status (st ex) \<noteq> 1 \<Longrightarrow>
   loop_rel (length (logs ex))
     (sweepLoop (entry d env dep) env dep sender (args\<lparr>partialSuccess := True\<rparr>) i ex)
     (sweepLoop (entry d env dep) env dep sender (args\<lparr>partialSuccess := False\<rparr>) i ex)"
proof (induction "length (tokens args) - i" arbitrary: i ex)
  case 0
  then show ?case by (simp add: sweepLoop_end loop_rel_def)
next
  case (Suc n)
  let ?T = "args\<lparr>partialSuccess := True\<rparr>" and ?F = "args\<lparr>partialSuccess := False\<rparr>"
  from Suc.hyps(2) have lt: "i < length (tokens args)" and n: "n = length (tokens args) - Suc i" by simp_all
  have rel: "mode_rel (sweepStep (entry d env dep) env dep sender ?T i ex)
                      (sweepStep (entry d env dep) env dep sender ?F i ex)"
    using Suc.prems by (rule mode_rel_sweepStep)
  have tr: "traced (Suc 0) ex (sweepStep (entry d env dep) env dep sender ?T i ex)"
    using Suc.prems by (rule traced_sweepStep)
  show ?case
  proof (cases "sweepStep (entry d env dep) env dep sender ?T i ex")
    case (Reverted r tr')
    with rel lt show ?thesis by (auto simp: sweepLoop_step mode_rel_def loop_rel_def)
  next
    case (Returned u ex1)
    with tr obtain e where f: "status (st ex1) = status (st ex)" "logs ex1 = logs ex @ [e]"
      by (auto simp: traced_def length_Suc_conv)
    then have l1: "status (st ex1) \<noteq> 1" using Suc.prems by simp
    have LT: "sweepLoop (entry d env dep) env dep sender ?T i ex
              = sweepLoop (entry d env dep) env dep sender ?T (Suc i) ex1"
      using lt Returned by (simp add: sweepLoop_step)
    have tl: "traced (length (tokens ?T) - Suc i) ex1 (sweepLoop (entry d env dep) env dep sender ?T (Suc i) ex1)"
      using l1 by (rule traced_sweepLoop)
    have dropT: "drop (length (logs ex)) (logs ex') = e # drop (length (logs ex1)) (logs ex')"
      if "sweepLoop (entry d env dep) env dep sender ?T (Suc i) ex1 = Returned u' ex'" for u' ex'
      using tl that f by (auto simp: traced_def)
    show ?thesis
    proof (cases "is_Swept e")
      case True
      with rel Returned f have SF: "sweepStep (entry d env dep) env dep sender ?F i ex = Returned u ex1"
        by (simp add: mode_rel_def)
      have LF: "sweepLoop (entry d env dep) env dep sender ?F i ex
              = sweepLoop (entry d env dep) env dep sender ?F (Suc i) ex1"
        using lt SF by (simp add: sweepLoop_step)
      from Suc.hyps(1)[OF n l1]
      show ?thesis unfolding LT LF using dropT True
        by (auto simp: loop_rel_def split: result.splits)
    next
      case False
      with rel Returned f obtain r' tr' where SF: "sweepStep (entry d env dep) env dep sender ?F i ex = Reverted r' tr'"
        by (auto simp: mode_rel_def)
      have LF: "sweepLoop (entry d env dep) env dep sender ?F i ex = Reverted r' tr'"
        using lt SF by (simp add: sweepLoop_step)
      show ?thesis unfolding LT LF using dropT False
        by (auto simp: loop_rel_def split: result.splits)
    qed
  qed
qed

lemma forwardPermit_frame:
  "forwardPermit (entry d env dep) env dep p2 pcd ex = Returned u ex' \<Longrightarrow> status (st ex) \<noteq> 1 \<Longrightarrow>
    status (st ex') = status (st ex) \<and> logs ex' = logs ex \<and> (\<exists>r. trace ex' = trace ex @ [Called ForwardPermit p2 0 (Raw pcd) True r])"
  by (auto simp: forwardPermit_def split: prod.splits option.splits if_splits dest!: lowLevelCall_frame)

lemma sweepAndSwap_body_relay:
  assumes "length (tokens args) = length (swapCallData args)"
    and "length (tokens args) = length (minPricesUSD args)"
    and "length (tokens args) = length (maxPricesUSD args)"
  shows "sweepAndSwap_body cb env dep sender args ex =
           (case relay cb env dep args ex of
              Reverted r tr \<Rightarrow> Reverted r tr
            | Returned u ex1 \<Rightarrow> sweepLoop cb env dep sender args 0 ex1)"
  using assms by (simp add: sweepAndSwap_body_def relay_def)

lemma relay_mode [simp]: "relay cb env dep (args\<lparr>partialSuccess := b\<rparr>) ex = relay cb env dep args ex"
  by (simp add: relay_def)

lemma relay_frame:
  assumes "relay (entry d env dep) env dep args ex = Returned u ex1" and "status (st ex) \<noteq> 1"
  shows "status (st ex1) = status (st ex) \<and> logs ex1 = logs ex
     \<and> (\<exists>tr. trace ex1 = trace ex @ tr \<and> list_all transfer_ok tr \<and> list_all approve_ok tr)"
  using assms by (auto simp: relay_def split: if_splits dest!: forwardPermit_frame)

text \<open>
  Claim C4. Mode equivalence on the happy path: the atomic run (\<^verbatim>\<open>partialSuccess = false\<close>)
  returns with final exec \<open>ex'\<close> exactly when the best-effort run (\<^verbatim>\<open>partialSuccess = true\<close>)
  returns with the same \<open>ex'\<close> and every event it emitted is a \<^verbatim>\<open>Swept\<close>. So on every input
  on which each asset's pipeline succeeds the two modes end in the same state (the
  storage and the whole world, hence every balance), with the same events and the same
  external calls.
\<close>

theorem mode_equivalence:
  "sweepAndSwap (entry d env dep) env dep sender (args\<lparr>partialSuccess := False\<rparr>) ex = Returned u ex'
   \<longleftrightarrow> sweepAndSwap (entry d env dep) env dep sender (args\<lparr>partialSuccess := True\<rparr>) ex = Returned u ex'
       \<and> list_all is_Swept (drop (length (logs ex)) (logs ex'))"
proof (cases "status (st ex) = 1")
  case False
  then show ?thesis by (simp add: sweepAndSwap_def nonReentrant_def)
next
  case True
  let ?T = "args\<lparr>partialSuccess := True\<rparr>" and ?F = "args\<lparr>partialSuccess := False\<rparr>"
  let ?ex2 = "ex\<lparr>st := (st ex)\<lparr>status := 2\<rparr>\<rparr>"
  have l2: "status (st ?ex2) \<noteq> 1" by simp
  show ?thesis
  proof (cases "length (tokens args) = length (swapCallData args) \<and> length (tokens args) = length (minPricesUSD args)
                 \<and> length (tokens args) = length (maxPricesUSD args)")
    case False
    then show ?thesis using True by (auto simp: sweepAndSwap_def nonReentrant_def sweepAndSwap_body_def)
  next
    case lens: True
    have bodyT: "sweepAndSwap_body (entry d env dep) env dep sender ?T ?ex2
                   = (case relay (entry d env dep) env dep args ?ex2 of
                        Reverted r tr \<Rightarrow> Reverted r tr
                      | Returned u ex1 \<Rightarrow> sweepLoop (entry d env dep) env dep sender ?T 0 ex1)"
      and bodyF: "sweepAndSwap_body (entry d env dep) env dep sender ?F ?ex2
                   = (case relay (entry d env dep) env dep args ?ex2 of
                        Reverted r tr \<Rightarrow> Reverted r tr
                      | Returned u ex1 \<Rightarrow> sweepLoop (entry d env dep) env dep sender ?F 0 ex1)"
      using lens by (simp_all add: sweepAndSwap_body_relay)
    show ?thesis
    proof (cases "relay (entry d env dep) env dep args ?ex2")
      case (Reverted r tr)
      then show ?thesis using True by (simp add: sweepAndSwap_def nonReentrant_def bodyT bodyF)
    next
      case (Returned u1 ex1)
      from relay_frame[OF Returned l2] have f1: "status (st ex1) \<noteq> 1" "logs ex1 = logs ex" by simp_all
      from loop_rel_sweepLoop[OF f1(1), of d env dep sender args 0]
      show ?thesis using True f1(2) Returned
        unfolding sweepAndSwap_def nonReentrant_def bodyT bodyF
        by (auto simp: loop_rel_def split: result.splits if_splits)
    qed
  qed
qed

theorem mode_equivalence_witness:
  "sweepAndSwap (entry 2 mock_env mock_dep) mock_env mock_dep USER
     (batch [] [TOKA, TOKB] 0 0 TOKT [[1, 161, 193, 100], [1, 177, 193, 50]] False)
     (exec0 1 0 (chain0 USER 0 (0, 0)))
   = sweepAndSwap (entry 2 mock_env mock_dep) mock_env mock_dep USER
     (batch [] [TOKA, TOKB] 0 0 TOKT [[1, 161, 193, 100], [1, 177, 193, 50]] True)
     (exec0 1 0 (chain0 USER 0 (0, 0)))
   \<and> map_option logs (returned (sweepAndSwap (entry 2 mock_env mock_dep) mock_env mock_dep USER
     (batch [] [TOKA, TOKB] 0 0 TOKT [[1, 161, 193, 100], [1, 177, 193, 50]] False)
     (exec0 1 0 (chain0 USER 0 (0, 0)))))
     = Some [Swept USER TOKA 100 TOKT 100, Swept USER TOKB 50 TOKT 50]"
proof -
  let ?run = "\<lambda>m. sweepAndSwap (entry 2 mock_env mock_dep) mock_env mock_dep USER
     (batch [] [TOKA, TOKB] 0 0 TOKT [[1, 161, 193, 100], [1, 177, 193, 50]] m)
     (exec0 1 0 (chain0 USER 0 (0, 0)))"
  have "\<exists>ex'. ?run True = Returned () ex' \<and> logs ex' = [Swept USER TOKA 100 TOKT 100, Swept USER TOKB 50 TOKT 50]"
    by (simp add: mock_defs sweeper_defs)
  then obtain ex' where T: "?run True = Returned () ex'"
    and L: "logs ex' = [Swept USER TOKA 100 TOKT 100, Swept USER TOKB 50 TOKT 50]" by blast
  have "logs (exec0 1 0 (chain0 USER 0 (0, 0))) = []" by (simp add: exec0_def)
  with T L mode_equivalence [of 2 mock_env mock_dep USER
      "batch [] [TOKA, TOKB] 0 0 TOKT [[1, 161, 193, 100], [1, 177, 193, 50]] True"
      "exec0 1 0 (chain0 USER 0 (0, 0))" "()" ex']
  have "?run False = Returned () ex'" by simp
  with T L show ?thesis by simp
qed

section \<open>Failures of the transfer and approval wrappers\<close>

lemma safe_action_parts:
  "list_all safe_action tr \<Longrightarrow> list_all transfer_ok tr \<and> list_all approve_ok tr \<and> list_all not_relay tr"
  by (simp add: list_all_iff safe_action_def)

lemma sweepAndSwap_traced:
  assumes "sweepAndSwap (entry d env dep) env dep sender args ex = Returned u ex'"
  shows "\<exists>tr. trace ex' = trace ex @ tr \<and> list_all transfer_ok tr \<and> list_all approve_ok tr"
proof -
  let ?ex2 = "ex\<lparr>st := (st ex)\<lparr>status := 2\<rparr>\<rparr>"
  from assms have s1: "status (st ex) = 1"
    by (auto simp: sweepAndSwap_def nonReentrant_def split: if_splits)
  from assms s1 obtain ex3 where body: "sweepAndSwap_body (entry d env dep) env dep sender args ?ex2 = Returned u ex3"
    and ex': "ex' = ex3\<lparr>st := (st ex3)\<lparr>status := 1\<rparr>\<rparr>"
    by (auto simp: sweepAndSwap_def nonReentrant_def split: result.splits)
  from body have lens: "length (tokens args) = length (swapCallData args)"
    "length (tokens args) = length (minPricesUSD args)" "length (tokens args) = length (maxPricesUSD args)"
    by (auto simp: sweepAndSwap_body_def split: if_splits)
  from body obtain u1 ex1 where r: "relay (entry d env dep) env dep args ?ex2 = Returned u1 ex1"
    and loop: "sweepLoop (entry d env dep) env dep sender args 0 ex1 = Returned u ex3"
    by (auto simp: sweepAndSwap_body_relay[OF lens] split: result.splits)
  have l2: "status (st ?ex2) \<noteq> 1" by simp
  from relay_frame[OF r l2] obtain tr1 where f1: "status (st ex1) \<noteq> 1"
    "trace ex1 = trace ex @ tr1" "list_all transfer_ok tr1" "list_all approve_ok tr1" by auto
  from traced_sweepLoop[OF f1(1), of args 0 d env dep sender] loop
  obtain tr2 where f2: "trace ex3 = trace ex1 @ tr2" "list_all safe_action tr2"
    by (auto simp: traced_def)
  from safe_action_parts[OF f2(2)] f1 f2(1) ex' show ?thesis by auto
qed

lemma safeTransfer_judged:
  "safeTransfer cb env dep token to v ex =
     (case lowLevelCall cb env dep SafeTransfer token 0 (Erc20Transfer to v) ex of
        (success, data, ex1) \<Rightarrow>
          if judged_ok success data then Returned () ex1
          else Reverted (if success \<and> abi_decode_bool data = None then DecodeFailure
                         else ErrorMsg ''TRANSFER_FAILED'') (trace ex1))"
  by (auto simp: safeTransfer_def judged_ok_def split: prod.splits option.splits)

lemma safeApprove_judged:
  "safeApprove cb env dep token sp v ex =
     (case lowLevelCall cb env dep SafeApprove token 0 (Erc20Approve sp v) ex of
        (success, data, ex1) \<Rightarrow>
          if judged_ok success data then Returned () ex1
          else Reverted (if success \<and> abi_decode_bool data = None then DecodeFailure
                         else ErrorMsg ''APPROVE_FAILED'') (trace ex1))"
  by (auto simp: safeApprove_def judged_ok_def split: prod.splits option.splits)

text \<open>
  Claim C8. \<^verbatim>\<open>_safeTransfer\<close> returns exactly when the low-level call succeeded and
  returned no data or data that decodes to \<^verbatim>\<open>true\<close>, and reverts otherwise
  (\<^verbatim>\<open>TRANSFER_FAILED\<close>, or the decoder's revert on malformed data). And in an invocation
  of \<^verbatim>\<open>sweepAndSwap\<close> that returns, in either mode, every transfer the contract made
  (settlement or refund) was judged successful: a transfer judged failed aborts the
  whole invocation and is never turned into a reported per-asset outcome.
\<close>

theorem transfer_failure_fatal:
  "safeTransfer cb env dep token to v ex =
     (case lowLevelCall cb env dep SafeTransfer token 0 (Erc20Transfer to v) ex of
        (success, data, ex1) \<Rightarrow>
          if judged_ok success data then Returned () ex1
          else Reverted (if success \<and> abi_decode_bool data = None then DecodeFailure
                         else ErrorMsg ''TRANSFER_FAILED'') (trace ex1))
   \<and> (sweepAndSwap (entry d env' dep') env' dep' sender args ex0 = Returned u ex'
        \<longrightarrow> (\<exists>tr. trace ex' = trace ex0 @ tr \<and> list_all transfer_ok tr))"
  using safeTransfer_judged sweepAndSwap_traced by blast

theorem transfer_failure_fatal_witness:
  "safeTransfer (entry 1 mock_env mock_dep) mock_env mock_dep TOKA USER 5 (exec0 2 0 (chain0 USER 0 (0, 0)))
     = Reverted (ErrorMsg ''TRANSFER_FAILED'') [Called SafeTransfer TOKA 0 (Erc20Transfer USER 5) False []]
   \<and> (\<exists>ex'. sweepAndSwap (entry 2 mock_env mock_dep) mock_env mock_dep USER
              (batch [] [TOKA] 0 0 TOKT [[]] True) (exec0 1 0 (chain0 USER 0 (0, 0))) = Returned () ex'
            \<and> trace ex' = [Queried (BalanceOf TOKA USER),
                  Called Permit2Transfer PERMIT2 0 (Permit2TransferFrom USER SWEEPER TOKA 100) True
                    (abi_encode_bool True),
                  Called SafeTransfer TOKA 0 (Erc20Transfer USER 100) True (abi_encode_bool True)]
            \<and> list_all transfer_ok (trace ex'))"
proof -
  have "\<exists>ex'. sweepAndSwap (entry 2 mock_env mock_dep) mock_env mock_dep USER
              (batch [] [TOKA] 0 0 TOKT [[]] True) (exec0 1 0 (chain0 USER 0 (0, 0))) = Returned () ex'
            \<and> trace ex' = [Queried (BalanceOf TOKA USER),
                  Called Permit2Transfer PERMIT2 0 (Permit2TransferFrom USER SWEEPER TOKA 100) True
                    (abi_encode_bool True),
                  Called SafeTransfer TOKA 0 (Erc20Transfer USER 100) True (abi_encode_bool True)]"
    by (simp add: mock_defs sweeper_defs)
  then obtain ex' where run: "sweepAndSwap (entry 2 mock_env mock_dep) mock_env mock_dep USER
              (batch [] [TOKA] 0 0 TOKT [[]] True) (exec0 1 0 (chain0 USER 0 (0, 0))) = Returned () ex'"
    and tr: "trace ex' = [Queried (BalanceOf TOKA USER),
                  Called Permit2Transfer PERMIT2 0 (Permit2TransferFrom USER SWEEPER TOKA 100) True
                    (abi_encode_bool True),
                  Called SafeTransfer TOKA 0 (Erc20Transfer USER 100) True (abi_encode_bool True)]"
    by blast
  have t0: "trace (exec0 1 0 (chain0 USER 0 (0, 0))) = []" by (simp add: exec0_def)
  have call: "lowLevelCall (entry 1 mock_env mock_dep) mock_env mock_dep SafeTransfer TOKA 0
                (Erc20Transfer USER 5) (exec0 2 0 (chain0 USER 0 (0, 0)))
              = (False, [], record_action (Called SafeTransfer TOKA 0 (Erc20Transfer USER 5) False [])
                              (exec0 2 0 (chain0 USER 0 (0, 0))))"
    by (simp add: mock_defs lowLevelCall_def)
  from transfer_failure_fatal [where cb = "entry 1 mock_env mock_dep" and env = mock_env and dep = mock_dep
         and token = TOKA and to = USER and v = 5 and ex = "exec0 2 0 (chain0 USER 0 (0, 0))"
         and d = 2 and env' = mock_env and dep' = mock_dep and sender = USER
         and args = "batch [] [TOKA] 0 0 TOKT [[]] True" and ?ex0.0 = "exec0 1 0 (chain0 USER 0 (0, 0))"
         and u = "()" and ex' = ex']
  have "safeTransfer (entry 1 mock_env mock_dep) mock_env mock_dep TOKA USER 5 (exec0 2 0 (chain0 USER 0 (0, 0)))
     = Reverted (ErrorMsg ''TRANSFER_FAILED'') [Called SafeTransfer TOKA 0 (Erc20Transfer USER 5) False []]"
    and "list_all transfer_ok (trace ex')"
    using run t0 call by (simp_all add: judged_ok_def record_action_def exec0_def)
  with run tr show ?thesis by simp
qed

text \<open>
  Claim C9. \<^verbatim>\<open>_safeApprove\<close> judges its call as \<^verbatim>\<open>_safeTransfer\<close> does. When it reverts,
  the rest of the iteration (\<open>convert\<close>, entered after the pull) reverts with the same
  reason whatever \<^verbatim>\<open>partialSuccess\<close> is: no refund, no \<^verbatim>\<open>SweepFailed\<close> outcome. And an
  invocation that returns, in either mode, has made only approvals judged successful.
\<close>

theorem approve_failure_fatal:
  "safeApprove cb env dep token sp v ex =
     (case lowLevelCall cb env dep SafeApprove token 0 (Erc20Approve sp v) ex of
        (success, data, ex1) \<Rightarrow>
          if judged_ok success data then Returned () ex1
          else Reverted (if success \<and> abi_decode_bool data = None then DecodeFailure
                         else ErrorMsg ''APPROVE_FAILED'') (trace ex1))
   \<and> (safeApprove cb env dep token (aggregator (st ex)) amountIn ex = Reverted r tr
        \<longrightarrow> convert cb env dep sender args i token amountIn ex = Reverted r tr)
   \<and> (sweepAndSwap (entry d env' dep') env' dep' sender args ex0 = Returned u ex'
        \<longrightarrow> (\<exists>tr. trace ex' = trace ex0 @ tr \<and> list_all approve_ok tr))"
proof -
  have "convert cb env dep sender args i token amountIn ex = Reverted r tr"
    if "safeApprove cb env dep token (aggregator (st ex)) amountIn ex = Reverted r tr"
    using that by (simp add: convert_def)
  then show ?thesis using safeApprove_judged sweepAndSwap_traced by blast
qed

theorem approve_failure_fatal_witness:
  "convert (entry 1 mock_env mock_dep) mock_env mock_dep USER (batch [] [TOKX] 0 0 TOKT [[4, 0, 0, 0]] True)
     0 TOKX 10 (exec0 2 0 (chain0 USER 0 (0, 0)))
     = Reverted (ErrorMsg ''APPROVE_FAILED'')
         [Called SafeApprove TOKX 0 (Erc20Approve VENUE 10) True (abi_encode_bool False)]
   \<and> sweepAndSwap (entry 2 mock_env mock_dep) mock_env mock_dep USER
        (batch [] [TOKX] 0 0 TOKT [[4, 0, 0, 0]] True) (exec0 1 0 (chain0 USER 0 (0, 0)))
     = Reverted (ErrorMsg ''APPROVE_FAILED'')
         [Queried (BalanceOf TOKX USER),
          Called Permit2Transfer PERMIT2 0 (Permit2TransferFrom USER SWEEPER TOKX 10) True
            (abi_encode_bool True),
          Called SafeApprove TOKX 0 (Erc20Approve VENUE 10) True (abi_encode_bool False)]"
proof -
  have "safeApprove (entry 1 mock_env mock_dep) mock_env mock_dep TOKX
          (aggregator (st (exec0 2 0 (chain0 USER 0 (0, 0))))) 10 (exec0 2 0 (chain0 USER 0 (0, 0)))
        = Reverted (ErrorMsg ''APPROVE_FAILED'')
            [Called SafeApprove TOKX 0 (Erc20Approve VENUE 10) True (abi_encode_bool False)]"
    by (simp add: mock_defs sweeper_defs)
  with approve_failure_fatal [where cb = "entry 1 mock_env mock_dep" and env = mock_env and dep = mock_dep
         and token = TOKX and ex = "exec0 2 0 (chain0 USER 0 (0, 0))" and amountIn = 10
         and r = "ErrorMsg ''APPROVE_FAILED''"
         and tr = "[Called SafeApprove TOKX 0 (Erc20Approve VENUE 10) True (abi_encode_bool False)]"
         and sender = USER and args = "batch [] [TOKX] 0 0 TOKT [[4, 0, 0, 0]] True" and i = 0]
  have "convert (entry 1 mock_env mock_dep) mock_env mock_dep USER (batch [] [TOKX] 0 0 TOKT [[4, 0, 0, 0]] True)
     0 TOKX 10 (exec0 2 0 (chain0 USER 0 (0, 0)))
     = Reverted (ErrorMsg ''APPROVE_FAILED'')
         [Called SafeApprove TOKX 0 (Erc20Approve VENUE 10) True (abi_encode_bool False)]"
    by blast
  moreover have "sweepAndSwap (entry 2 mock_env mock_dep) mock_env mock_dep USER
        (batch [] [TOKX] 0 0 TOKT [[4, 0, 0, 0]] True) (exec0 1 0 (chain0 USER 0 (0, 0)))
     = Reverted (ErrorMsg ''APPROVE_FAILED'')
         [Queried (BalanceOf TOKX USER),
          Called Permit2Transfer PERMIT2 0 (Permit2TransferFrom USER SWEEPER TOKX 10) True
            (abi_encode_bool True),
          Called SafeApprove TOKX 0 (Erc20Approve VENUE 10) True (abi_encode_bool False)]"
    by (simp add: mock_defs sweeper_defs)
  ultimately show ?thesis by simp
qed

section \<open>The price gate\<close>

lemma unat_pow10:
  "(10::nat) ^ k < 2 ^ 256 \<Longrightarrow> unat (word_of_nat (10 ^ k) :: uint256) = 10 ^ k"
  by (rule of_nat_inverse [OF refl]) simp

lemma checked_pow10_Some:
  "(10::nat) ^ unat k < 2 ^ 256 \<Longrightarrow> \<exists>p. checked_pow10 k = Some p \<and> unat p = 10 ^ unat k"
  using unat_pow10 [of "unat k"] by (simp add: checked_pow10_def del: of_nat_power)

lemma checked_pow10_None:
  "\<not> (10::nat) ^ unat k < 2 ^ 256 \<Longrightarrow> checked_pow10 k = None"
  by (simp add: checked_pow10_def)

lemma pow_le_prod: "p \<noteq> 0 \<Longrightarrow> (q::nat) \<le> p * q"
  by simp

lemma normalizePrice_fits:
  assumes "price \<noteq> 0" and "scale_fits (unat price) (unat d) (unat pd)"
  shows "\<exists>np. normalizePrice price d pd = Some np
             \<and> unat np = spec_normalize (unat price) (unat d) (unat pd)"
proof -
  consider (gt) "d > pd" | (lt) "d < pd" | (eq) "d = pd" by (meson linorder_neqE)
  then show ?thesis
  proof cases
    case gt
    then have u: "unat (d - pd) = unat d - unat pd" "unat pd < unat d"
      using unat_sub [of pd d] by (simp_all add: word_less_nat_alt less_imp_le)
    with assms(2) have "(10::nat) ^ unat (d - pd) < 2 ^ 256" by (simp add: scale_fits_def)
    from checked_pow10_Some[OF this] obtain p where "checked_pow10 (d - pd) = Some p" "unat p = 10 ^ unat (d - pd)"
      by auto
    with gt u show ?thesis by (simp add: normalizePrice_def spec_normalize_def unat_div)
  next
    case lt
    then have nlt: "\<not> d > pd" by (simp add: not_less less_imp_le)
    from lt have u: "unat (pd - d) = unat pd - unat d" "unat d < unat pd"
      using unat_sub [of d pd] by (simp_all add: word_less_nat_alt less_imp_le)
    with assms(2) have prod: "unat price * 10 ^ unat (pd - d) < 2 ^ 256" by (simp add: scale_fits_def)
    have "unat price \<noteq> 0" using assms(1) by (simp add: unat_0_iff)
    from pow_le_prod[OF this, of "10 ^ unat (pd - d)"] prod have "(10::nat) ^ unat (pd - d) < 2 ^ 256"
      by (rule le_less_trans)
    from checked_pow10_Some[OF this] obtain p where p: "checked_pow10 (pd - d) = Some p" "unat p = 10 ^ unat (pd - d)"
      by auto
    with prod have "unat price * unat p < 2 ^ 256" by simp
    then have "checked_mul price p = Some (price * p)" "unat (price * p) = unat price * unat p"
      using unat_mult_lem[of price p] by (simp_all add: checked_mul_def)
    with lt nlt u p show ?thesis by (simp add: normalizePrice_def spec_normalize_def)
  next
    case eq
    then show ?thesis by (simp add: normalizePrice_def spec_normalize_def)
  qed
qed

lemma normalizePrice_overflow:
  assumes "\<not> scale_fits (unat price) (unat d) (unat pd)"
  shows "normalizePrice price d pd = None"
proof -
  consider (gt) "d > pd" | (lt) "d < pd" | (eq) "d = pd" by (meson linorder_neqE)
  then show ?thesis
  proof cases
    case gt
    then have u: "unat (d - pd) = unat d - unat pd" "unat pd < unat d"
      using unat_sub [of pd d] by (simp_all add: word_less_nat_alt less_imp_le)
    with assms have "\<not> (10::nat) ^ unat (d - pd) < 2 ^ 256" by (simp add: scale_fits_def)
    from checked_pow10_None[OF this] gt show ?thesis by (simp add: normalizePrice_def)
  next
    case lt
    then have nlt: "\<not> d > pd" by (simp add: not_less less_imp_le)
    from lt have u: "unat (pd - d) = unat pd - unat d" "unat d < unat pd"
      using unat_sub [of d pd] by (simp_all add: word_less_nat_alt less_imp_le)
    with assms have prod: "\<not> unat price * 10 ^ unat (pd - d) < 2 ^ 256" by (simp add: scale_fits_def)
    show ?thesis
    proof (cases "(10::nat) ^ unat (pd - d) < 2 ^ 256")
      case True
      from checked_pow10_Some[OF this] obtain p where p: "checked_pow10 (pd - d) = Some p" "unat p = 10 ^ unat (pd - d)"
        by auto
      with prod have "checked_mul price p = None" by (simp add: checked_mul_def)
      with lt nlt p show ?thesis by (simp add: normalizePrice_def)
    next
      case False
      from checked_pow10_None[OF this] lt nlt show ?thesis by (simp add: normalizePrice_def)
    qed
  next
    case eq
    with assms show ?thesis by (simp add: scale_fits_def)
  qed
qed

text \<open>
  Claim C5, as amended. Without an oracle the gate passes. With an oracle that answers
  \<open>(price, decimals)\<close>: a zero price fails the gate; otherwise, provided the scaling stays
  within 256 bits (\<open>scale_fits\<close>), the gate passes exactly when
  \<open>minPrice \<le> normalized \<le> maxPrice\<close>, both ends included, where \<open>normalized\<close> is the
  price divided (floor) by \<open>10 ^ (decimals - priceDecimals)\<close>, multiplied by
  \<open>10 ^ (priceDecimals - decimals)\<close>, or unchanged; when the scaling does not fit, checked
  arithmetic panics and the whole invocation reverts. A failed gate is reported as
  \<^verbatim>\<open>SweepFailed(..., "PRICE_OUT_OF_RANGE_OR_UNKNOWN")\<close>, whatever made it fail, and the
  iteration ends there (best-effort) or the batch reverts (atomic).
\<close>

theorem price_gate:
  "priceCheck env token pd minPrice maxPrice ex =
     (if priceOracle (st ex) = 0 then Returned True ex
      else case getPriceUSD env (priceOracle (st ex)) token (st ex) of
             None \<Rightarrow> Reverted ExternalRevert (trace ex @ [Queried (GetPriceUSD (priceOracle (st ex)) token)])
           | Some (price, decimals) \<Rightarrow>
               if price = 0
               then Returned False (record_action (Queried (GetPriceUSD (priceOracle (st ex)) token)) ex)
               else if scale_fits (unat price) (unat decimals) (unat pd)
               then Returned (unat minPrice \<le> spec_normalize (unat price) (unat decimals) (unat pd)
                              \<and> spec_normalize (unat price) (unat decimals) (unat pd) \<le> unat maxPrice)
                      (record_action (Queried (GetPriceUSD (priceOracle (st ex)) token)) ex)
               else Reverted Panic (trace ex @ [Queried (GetPriceUSD (priceOracle (st ex)) token)]))
   \<and> (priceCheck env (tokens args ! i) (priceDecimals args) (minPricesUSD args ! i) (maxPricesUSD args ! i) ex
        = Returned False ex1
      \<longrightarrow> sweepStep cb env dep sender args i ex =
            (if partialSuccess args
             then Returned () (emit (SweepFailed sender (tokens args ! i) ''PRICE_OUT_OF_RANGE_OR_UNKNOWN'') ex1)
             else Reverted (ErrorMsg ''PRICE_CHECK_FAILED'') (trace ex1)))"
proof -
  have gate: "priceCheck env token pd minPrice maxPrice ex =
     (if priceOracle (st ex) = 0 then Returned True ex
      else case getPriceUSD env (priceOracle (st ex)) token (st ex) of
             None \<Rightarrow> Reverted ExternalRevert (trace ex @ [Queried (GetPriceUSD (priceOracle (st ex)) token)])
           | Some (price, decimals) \<Rightarrow>
               if price = 0
               then Returned False (record_action (Queried (GetPriceUSD (priceOracle (st ex)) token)) ex)
               else if scale_fits (unat price) (unat decimals) (unat pd)
               then Returned (unat minPrice \<le> spec_normalize (unat price) (unat decimals) (unat pd)
                              \<and> spec_normalize (unat price) (unat decimals) (unat pd) \<le> unat maxPrice)
                      (record_action (Queried (GetPriceUSD (priceOracle (st ex)) token)) ex)
               else Reverted Panic (trace ex @ [Queried (GetPriceUSD (priceOracle (st ex)) token)]))"
  proof (cases "priceOracle (st ex) = 0")
    case True
    then show ?thesis by (simp add: priceCheck_def)
  next
    case has_oracle: False
    show ?thesis
    proof (cases "getPriceUSD env (priceOracle (st ex)) token (st ex)")
      case None
      with has_oracle show ?thesis by (simp add: priceCheck_def record_action_def)
    next
      case (Some pr)
      obtain price decimals where pr: "pr = (price, decimals)" by (cases pr)
      show ?thesis
      proof (cases "price = 0")
        case True
        with has_oracle Some pr show ?thesis by (simp add: priceCheck_def)
      next
        case nz: False
        show ?thesis
        proof (cases "scale_fits (unat price) (unat decimals) (unat pd)")
          case True
          from normalizePrice_fits[OF nz True] obtain np where
            np: "normalizePrice price decimals pd = Some np"
                "unat np = spec_normalize (unat price) (unat decimals) (unat pd)" by auto
          have "(np < minPrice \<or> np > maxPrice) = (\<not> (unat minPrice \<le> unat np \<and> unat np \<le> unat maxPrice))"
            by (auto simp: word_less_nat_alt)
          with has_oracle Some pr nz True np show ?thesis by (auto simp: priceCheck_def Let_def)
        next
          case False
          from normalizePrice_overflow[OF False] has_oracle Some pr nz False
          show ?thesis by (simp add: priceCheck_def record_action_def)
        qed
      qed
    qed
  qed
  have report: "sweepStep cb env dep sender args i ex =
            (if partialSuccess args
             then Returned () (emit (SweepFailed sender (tokens args ! i) ''PRICE_OUT_OF_RANGE_OR_UNKNOWN'') ex1)
             else Reverted (ErrorMsg ''PRICE_CHECK_FAILED'') (trace ex1))"
    if "priceCheck env (tokens args ! i) (priceDecimals args) (minPricesUSD args ! i) (maxPricesUSD args ! i) ex
        = Returned False ex1"
    using that by (simp add: sweepStep_def failToken_def)
  from gate report show ?thesis by blast
qed

theorem price_gate_witness:
  "priceCheck mock_env TOKA 8 100 200 (exec0 2 ORACLE (chain0 USER 0 (150, 8)))
     = Returned True (record_action (Queried (GetPriceUSD ORACLE TOKA)) (exec0 2 ORACLE (chain0 USER 0 (150, 8))))
   \<and> priceCheck mock_env TOKA 8 100 200 (exec0 2 ORACLE (chain0 USER 0 (15099, 10)))
     = Returned True (record_action (Queried (GetPriceUSD ORACLE TOKA)) (exec0 2 ORACLE (chain0 USER 0 (15099, 10))))
   \<and> priceCheck mock_env TOKA 8 100 200 (exec0 2 ORACLE (chain0 USER 0 (2, 6)))
     = Returned True (record_action (Queried (GetPriceUSD ORACLE TOKA)) (exec0 2 ORACLE (chain0 USER 0 (2, 6))))
   \<and> priceCheck mock_env TOKA 8 100 200 (exec0 2 ORACLE (chain0 USER 0 (0, 8)))
     = Returned False (record_action (Queried (GetPriceUSD ORACLE TOKA)) (exec0 2 ORACLE (chain0 USER 0 (0, 8))))
   \<and> sweepStep (entry 1 mock_env mock_dep) mock_env mock_dep USER
        (batch [] [TOKA] 100 200 TOKT [[1, 161, 193, 100]] True) 0 (exec0 2 ORACLE (chain0 USER 0 (99, 8)))
     = Returned () (emit (SweepFailed USER TOKA ''PRICE_OUT_OF_RANGE_OR_UNKNOWN'')
         (record_action (Queried (GetPriceUSD ORACLE TOKA)) (exec0 2 ORACLE (chain0 USER 0 (99, 8)))))"
proof -
  have q: "getPriceUSD mock_env ORACLE TOKA (st (exec0 2 ORACLE (chain0 USER 0 quote))) = Some quote"
    "priceOracle (st (exec0 2 ORACLE (chain0 USER 0 quote))) = ORACLE" for quote
    by (simp_all add: mock_env_def exec0_def chain0_def)
  have low: "priceCheck mock_env (tokens (batch [] [TOKA] 100 200 TOKT [[1, 161, 193, 100]] True) ! 0)
               (priceDecimals (batch [] [TOKA] 100 200 TOKT [[1, 161, 193, 100]] True))
               (minPricesUSD (batch [] [TOKA] 100 200 TOKT [[1, 161, 193, 100]] True) ! 0)
               (maxPricesUSD (batch [] [TOKA] 100 200 TOKT [[1, 161, 193, 100]] True) ! 0)
               (exec0 2 ORACLE (chain0 USER 0 (99, 8)))
             = Returned False (record_action (Queried (GetPriceUSD ORACLE TOKA)) (exec0 2 ORACLE (chain0 USER 0 (99, 8))))"
    using price_gate [where env = mock_env and token = TOKA and pd = 8 and minPrice = 100 and maxPrice = 200
        and ex = "exec0 2 ORACLE (chain0 USER 0 (99, 8))"]
    by (simp add: q batch_def scale_fits_def spec_normalize_def)
  show ?thesis
    using price_gate [where env = mock_env and token = TOKA and pd = 8 and minPrice = 100 and maxPrice = 200
        and ex = "exec0 2 ORACLE (chain0 USER 0 (150, 8))"]
      price_gate [where env = mock_env and token = TOKA and pd = 8 and minPrice = 100 and maxPrice = 200
        and ex = "exec0 2 ORACLE (chain0 USER 0 (15099, 10))"]
      price_gate [where env = mock_env and token = TOKA and pd = 8 and minPrice = 100 and maxPrice = 200
        and ex = "exec0 2 ORACLE (chain0 USER 0 (2, 6))"]
      price_gate [where env = mock_env and token = TOKA and pd = 8 and minPrice = 100 and maxPrice = 200
        and ex = "exec0 2 ORACLE (chain0 USER 0 (0, 8))"]
      price_gate [where env = mock_env and cb = "entry 1 mock_env mock_dep" and dep = mock_dep and sender = USER
        and args = "batch [] [TOKA] 100 200 TOKT [[1, 161, 193, 100]] True" and i = 0
        and ex = "exec0 2 ORACLE (chain0 USER 0 (99, 8))"
        and ?ex1.0 = "record_action (Queried (GetPriceUSD ORACLE TOKA)) (exec0 2 ORACLE (chain0 USER 0 (99, 8)))"]
      low
    by (simp add: q scale_fits_def spec_normalize_def batch_def)
qed

text \<open>
  Claim C5 as stated fails where the scaling overflows: with a price of 1 at 86 decimals,
  8 requested and bounds \<open>[0, 5]\<close>, the normalized price of the claim is
  \<open>1 div 10 ^ 78 = 0\<close> and its gate passes, while the contract computes \<^verbatim>\<open>10 ** 78\<close> in
  \<^verbatim>\<open>uint256\<close>, panics, and the best-effort batch reverts without any report.
\<close>

theorem price_gate_counterexample:
  "claimed_gate (Some (1, 86)) 8 0 5
   \<and> priceCheck mock_env TOKA 8 0 5 (exec0 2 ORACLE (chain0 USER 0 (1, 86)))
       = Reverted Panic [Queried (GetPriceUSD ORACLE TOKA)]
   \<and> sweepAndSwap (entry 2 mock_env mock_dep) mock_env mock_dep USER
        (batch [] [TOKA] 0 5 TOKT [[1, 161, 193, 100]] True) (exec0 1 ORACLE (chain0 USER 0 (1, 86)))
       = Reverted Panic [Queried (GetPriceUSD ORACLE TOKA)]"
  by (simp add: claimed_gate_def spec_normalize_def mock_defs sweeper_defs)

section \<open>The relay of the permit and the empty batch\<close>

text \<open>
  The relay comes first in the body, after the guard and the two length checks; the loop
  over the assets starts from the state it leaves.
\<close>

lemma sweepLoop_result_trace:
  assumes "status (st ex) \<noteq> 1"
  shows "\<exists>rest. result_trace (sweepLoop (entry d env dep) env dep sender args i ex) = trace ex @ rest
                \<and> list_all not_relay rest"
  using traced_sweepLoop[OF assms, of args i d env dep sender]
  by (auto simp: traced_def split: result.splits dest: safe_not_relay)

lemma result_trace_finish [simp]:
  "result_trace (case R of Reverted r tr \<Rightarrow> Reverted r tr
                 | Returned u ex' \<Rightarrow> Returned u (ex'\<lparr>st := (st ex')\<lparr>status := 1\<rparr>\<rparr>)) = result_trace R"
  by (cases R) simp_all

lemma forwardPermit_call:
  "forwardPermit cb env dep p2 pcd ex =
     (case lowLevelCall cb env dep ForwardPermit p2 0 (Raw pcd) ex of
        (ok, res, ex1) \<Rightarrow>
          (case shortRevertReason dep pcd res of
             None \<Rightarrow> Reverted DecodeFailure (trace ex1)
           | Some reason \<Rightarrow>
               if ok then Returned () ex1
               else Reverted (ErrorMsg (''PERMIT_CALL_FAILED:'' @ reason)) (trace ex1)))"
  by (simp add: forwardPermit_def)

lemma shortRevertReason_short: "length res < 68 \<Longrightarrow> shortRevertReason dep pcd res = Some []"
  by (simp add: shortRevertReason_def)

lemma sweepAndSwap_rejected:
  assumes "status (st ex) \<noteq> 1 \<or> length (tokens args) \<noteq> length (swapCallData args)
           \<or> length (tokens args) \<noteq> length (minPricesUSD args)
           \<or> length (tokens args) \<noteq> length (maxPricesUSD args)"
  shows "\<exists>r. sweepAndSwap cb env dep sender args ex = Reverted r (trace ex)"
  using assms by (auto simp: sweepAndSwap_def nonReentrant_def sweepAndSwap_body_def)

lemma sweepAndSwap_run:
  assumes free: "status (st ex) = 1"
    and lens: "length (tokens args) = length (swapCallData args)"
      "length (tokens args) = length (minPricesUSD args)"
      "length (tokens args) = length (maxPricesUSD args)"
  shows "sweepAndSwap cb env dep sender args ex =
      (case (case relay cb env dep args (ex\<lparr>st := (st ex)\<lparr>status := 2\<rparr>\<rparr>) of
               Reverted r tr \<Rightarrow> Reverted r tr
             | Returned u ex1 \<Rightarrow> sweepLoop cb env dep sender args 0 ex1) of
         Reverted r tr \<Rightarrow> Reverted r tr
       | Returned u ex' \<Rightarrow> Returned u (ex'\<lparr>st := (st ex')\<lparr>status := 1\<rparr>\<rparr>))"
  using free by (simp add: sweepAndSwap_def nonReentrant_def sweepAndSwap_body_relay[OF lens])

lemma abi_encode_bool_length: "length (abi_encode_bool b) = 32"
  by (simp add: abi_encode_bool_def)

text \<open>
  Claim C7, as amended. An invocation that fails the guard or a length check reverts with
  the trace it started with: its payload is not relayed. For every other invocation: when
  \<^verbatim>\<open>permitCalldata\<close> is not empty, the first external interaction is the call of
  \<^verbatim>\<open>permit2\<close> with exactly that payload and no value, and no later interaction is a
  relay; if the relay fails the invocation reverts at once, whatever \<^verbatim>\<open>partialSuccess\<close>
  is, having done nothing else, with the message \<^verbatim>\<open>"PERMIT_CALL_FAILED:"\<close> and the short
  reason (or with the failure of the reason decoder); if it succeeds and returns fewer
  than 68 bytes, the loop over the assets starts from the state the relay left. When
  \<^verbatim>\<open>permitCalldata\<close> is empty there is no relay at all and the loop starts from the state
  of the call.
\<close>

theorem forward_once:
  "if status (st ex) \<noteq> 1 \<or> length (tokens args) \<noteq> length (swapCallData args)
      \<or> length (tokens args) \<noteq> length (minPricesUSD args)
      \<or> length (tokens args) \<noteq> length (maxPricesUSD args)
   then (\<exists>r. sweepAndSwap (entry d env dep) env dep sender args ex = Reverted r (trace ex))
   else if permitCalldata args = []
   then sweepAndSwap (entry d env dep) env dep sender args ex
          = (case sweepLoop (entry d env dep) env dep sender args 0 (ex\<lparr>st := (st ex)\<lparr>status := 2\<rparr>\<rparr>) of
               Reverted r tr \<Rightarrow> Reverted r tr
             | Returned u ex' \<Rightarrow> Returned u (ex'\<lparr>st := (st ex')\<lparr>status := 1\<rparr>\<rparr>))
        \<and> (\<exists>rest. result_trace (sweepAndSwap (entry d env dep) env dep sender args ex) = trace ex @ rest
                  \<and> list_all not_relay rest)
   else (case lowLevelCall (entry d env dep) env dep ForwardPermit (permit2 args) 0
               (Raw (permitCalldata args)) (ex\<lparr>st := (st ex)\<lparr>status := 2\<rparr>\<rparr>) of
           (ok, res, ex1) \<Rightarrow>
             (\<not> ok \<longrightarrow>
                sweepAndSwap (entry d env dep) env dep sender args ex
                  = Reverted
                      (case shortRevertReason dep (permitCalldata args) res of
                         None \<Rightarrow> DecodeFailure
                       | Some reason \<Rightarrow> ErrorMsg (''PERMIT_CALL_FAILED:'' @ reason))
                      (trace ex @ [Called ForwardPermit (permit2 args) 0
                                     (Raw (permitCalldata args)) False res]))
             \<and> (ok \<and> length res < 68 \<longrightarrow>
                  sweepAndSwap (entry d env dep) env dep sender args ex
                    = (case sweepLoop (entry d env dep) env dep sender args 0 ex1 of
                         Reverted r tr \<Rightarrow> Reverted r tr
                       | Returned u ex' \<Rightarrow> Returned u (ex'\<lparr>st := (st ex')\<lparr>status := 1\<rparr>\<rparr>)))
             \<and> (\<exists>rest. result_trace (sweepAndSwap (entry d env dep) env dep sender args ex)
                              = trace ex @ [Called ForwardPermit (permit2 args) 0
                                              (Raw (permitCalldata args)) ok res] @ rest
                            \<and> list_all not_relay rest))"
proof (cases "status (st ex) \<noteq> 1 \<or> length (tokens args) \<noteq> length (swapCallData args)
      \<or> length (tokens args) \<noteq> length (minPricesUSD args)
      \<or> length (tokens args) \<noteq> length (maxPricesUSD args)")
  case True
  from sweepAndSwap_rejected[OF True] True show ?thesis by simp
next
  case ok: False
  then have free: "status (st ex) = 1"
    and lens: "length (tokens args) = length (swapCallData args)"
      "length (tokens args) = length (minPricesUSD args)"
      "length (tokens args) = length (maxPricesUSD args)" by simp_all
  let ?ex2 = "ex\<lparr>st := (st ex)\<lparr>status := 2\<rparr>\<rparr>"
  have l2: "status (st ?ex2) \<noteq> 1" and t2: "trace ?ex2 = trace ex" by simp_all
  note run = sweepAndSwap_run[OF free lens, of "entry d env dep" env dep sender]
  show ?thesis
  proof (cases "permitCalldata args = []")
    case True
    then have "relay (entry d env dep) env dep args ?ex2 = Returned () ?ex2" by (simp add: relay_def)
    with sweepLoop_result_trace[OF l2, of d env dep sender args 0] True ok show ?thesis
      by (simp add: run)
  next
    case False
    obtain ok' res ex1 where c: "lowLevelCall (entry d env dep) env dep ForwardPermit (permit2 args) 0
                     (Raw (permitCalldata args)) ?ex2 = (ok', res, ex1)"
      by (cases "lowLevelCall (entry d env dep) env dep ForwardPermit (permit2 args) 0
                     (Raw (permitCalldata args)) ?ex2") auto
    from lowLevelCall_frame[OF c l2] have f: "status (st ex1) \<noteq> 1"
      "trace ex1 = trace ex @ [Called ForwardPermit (permit2 args) 0 (Raw (permitCalldata args)) ok' res]"
      by simp_all
    have r: "relay (entry d env dep) env dep args ?ex2 =
        (case shortRevertReason dep (permitCalldata args) res of
           None \<Rightarrow> Reverted DecodeFailure (trace ex1)
         | Some reason \<Rightarrow>
             if ok' then Returned () ex1
             else Reverted (ErrorMsg (''PERMIT_CALL_FAILED:'' @ reason)) (trace ex1))"
      using False c by (simp add: relay_def forwardPermit_call)
    have tr: "\<exists>rest. result_trace (sweepAndSwap (entry d env dep) env dep sender args ex)
                            = trace ex @ [Called ForwardPermit (permit2 args) 0
                                            (Raw (permitCalldata args)) ok' res] @ rest
                          \<and> list_all not_relay rest"
    proof (cases "ok' \<and> shortRevertReason dep (permitCalldata args) res \<noteq> None")
      case True
      with sweepLoop_result_trace[OF f(1), of d env dep sender args 0] r f(2) show ?thesis
        by (auto simp: run)
    next
      case False
      with r f(2) show ?thesis by (auto simp: run split: option.splits)
    qed
    have fail: "sweepAndSwap (entry d env dep) env dep sender args ex
                    = Reverted
                        (case shortRevertReason dep (permitCalldata args) res of
                           None \<Rightarrow> DecodeFailure
                         | Some reason \<Rightarrow> ErrorMsg (''PERMIT_CALL_FAILED:'' @ reason))
                        (trace ex @ [Called ForwardPermit (permit2 args) 0
                                       (Raw (permitCalldata args)) False res])" if "\<not> ok'"
      using that r f(2) by (simp add: run split: option.splits)
    have good: "sweepAndSwap (entry d env dep) env dep sender args ex
                    = (case sweepLoop (entry d env dep) env dep sender args 0 ex1 of
                         Reverted r tr \<Rightarrow> Reverted r tr
                       | Returned u ex' \<Rightarrow> Returned u (ex'\<lparr>st := (st ex')\<lparr>status := 1\<rparr>\<rparr>))"
      if "ok'" "length res < 68"
      using that r by (simp add: run shortRevertReason_short)
    from ok False c tr fail good show ?thesis by simp
  qed
qed

theorem forward_once_witness:
  "(\<exists>rest. result_trace (sweepAndSwap (entry 2 mock_env mock_dep) mock_env mock_dep USER
              (batch [1, 17, 119, 161, 40] [TOKA] 0 0 TOKT [[1, 161, 193, 60]] True)
              (exec0 1 0 (chain0 USER 0 (0, 0))))
            = [Called ForwardPermit PERMIT2 0 (Raw [1, 17, 119, 161, 40]) True (abi_encode_bool True)] @ rest
          \<and> list_all not_relay rest)
   \<and> map_option (\<lambda>ex. (logs ex, trace ex))
        (returned (sweepAndSwap (entry 2 mock_env mock_dep) mock_env mock_dep USER
           (batch [1, 17, 119, 161, 40] [TOKA] 0 0 TOKT [[1, 161, 193, 60]] True)
           (exec0 1 0 (chain0 USER 0 (0, 0)))))
     = Some ([Swept USER TOKA 60 TOKT 60],
        [Called ForwardPermit PERMIT2 0 (Raw [1, 17, 119, 161, 40]) True (abi_encode_bool True),
         Queried (BalanceOf TOKA USER),
         Called Permit2Transfer PERMIT2 0 (Permit2TransferFrom USER SWEEPER TOKA 60) True (abi_encode_bool True),
         Called SafeApprove TOKA 0 (Erc20Approve VENUE 60) True (abi_encode_bool True),
         Queried (BalanceOf TOKT SWEEPER),
         Called CallAggregator VENUE 0 (Raw [1, 161, 193, 60]) True [],
         Queried (BalanceOf TOKT SWEEPER),
         Called SafeTransfer TOKT 0 (Erc20Transfer USER 60) True (abi_encode_bool True)])
   \<and> sweepAndSwap (entry 2 mock_env mock_dep) mock_env mock_dep USER
        (batch [2] [TOKA] 0 0 TOKT [[1, 161, 193, 100]] True) (exec0 1 0 (chain0 USER 0 (0, 0)))
      = Reverted (ErrorMsg ''PERMIT_CALL_FAILED:'') [Called ForwardPermit PERMIT2 0 (Raw [2]) False []]
   \<and> sweepAndSwap (entry 2 mock_env mock_dep) mock_env mock_dep USER
        (batch [2] [TOKA] 0 0 TOKT [[1, 161, 193, 100]] False) (exec0 1 0 (chain0 USER 0 (0, 0)))
      = Reverted (ErrorMsg ''PERMIT_CALL_FAILED:'') [Called ForwardPermit PERMIT2 0 (Raw [2]) False []]
   \<and> list_all not_relay (result_trace (sweepAndSwap (entry 2 mock_env mock_dep) mock_env mock_dep USER
        (batch [] [TOKA] 0 0 TOKT [[1, 161, 193, 100]] True) (exec0 1 0 (chain0 USER 0 (0, 0)))))"
proof -
  have run: "map_option (\<lambda>ex. (logs ex, trace ex))
        (returned (sweepAndSwap (entry 2 mock_env mock_dep) mock_env mock_dep USER
           (batch [1, 17, 119, 161, 40] [TOKA] 0 0 TOKT [[1, 161, 193, 60]] True)
           (exec0 1 0 (chain0 USER 0 (0, 0)))))
     = Some ([Swept USER TOKA 60 TOKT 60],
        [Called ForwardPermit PERMIT2 0 (Raw [1, 17, 119, 161, 40]) True (abi_encode_bool True),
         Queried (BalanceOf TOKA USER),
         Called Permit2Transfer PERMIT2 0 (Permit2TransferFrom USER SWEEPER TOKA 60) True (abi_encode_bool True),
         Called SafeApprove TOKA 0 (Erc20Approve VENUE 60) True (abi_encode_bool True),
         Queried (BalanceOf TOKT SWEEPER),
         Called CallAggregator VENUE 0 (Raw [1, 161, 193, 60]) True [],
         Queried (BalanceOf TOKT SWEEPER),
         Called SafeTransfer TOKT 0 (Erc20Transfer USER 60) True (abi_encode_bool True)])"
    by (simp add: mock_defs sweeper_defs entry_locked abi_encode_bool_length)
  from forward_once [where ex = "exec0 1 0 (chain0 USER 0 (0, 0))"
          and args = "batch [1, 17, 119, 161, 40] [TOKA] 0 0 TOKT [[1, 161, 193, 60]] True"
          and d = 2 and env = mock_env and dep = mock_dep and sender = USER]
  have a: "\<exists>rest. result_trace (sweepAndSwap (entry 2 mock_env mock_dep) mock_env mock_dep USER
              (batch [1, 17, 119, 161, 40] [TOKA] 0 0 TOKT [[1, 161, 193, 60]] True)
              (exec0 1 0 (chain0 USER 0 (0, 0))))
            = [Called ForwardPermit PERMIT2 0 (Raw [1, 17, 119, 161, 40]) True (abi_encode_bool True)] @ rest
          \<and> list_all not_relay rest"
    by (clarsimp simp add: mock_env_def mock_code_def mock_dep_def mock_transferFrom_def chain0_def
          exec0_def batch_def lowLevelCall_def record_action_def set_world_def abi_encode_bool_length)
  from forward_once [where ex = "exec0 1 0 (chain0 USER 0 (0, 0))"
          and args = "batch [2] [TOKA] 0 0 TOKT [[1, 161, 193, 100]] True"
          and d = 2 and env = mock_env and dep = mock_dep and sender = USER]
  have b: "sweepAndSwap (entry 2 mock_env mock_dep) mock_env mock_dep USER
        (batch [2] [TOKA] 0 0 TOKT [[1, 161, 193, 100]] True) (exec0 1 0 (chain0 USER 0 (0, 0)))
      = Reverted (ErrorMsg ''PERMIT_CALL_FAILED:'') [Called ForwardPermit PERMIT2 0 (Raw [2]) False []]"
    by (simp add: mock_env_def mock_code_def mock_dep_def exec0_def batch_def lowLevelCall_def
          record_action_def set_world_def shortRevertReason_def)
  from forward_once [where ex = "exec0 1 0 (chain0 USER 0 (0, 0))"
          and args = "batch [2] [TOKA] 0 0 TOKT [[1, 161, 193, 100]] False"
          and d = 2 and env = mock_env and dep = mock_dep and sender = USER]
  have c: "sweepAndSwap (entry 2 mock_env mock_dep) mock_env mock_dep USER
        (batch [2] [TOKA] 0 0 TOKT [[1, 161, 193, 100]] False) (exec0 1 0 (chain0 USER 0 (0, 0)))
      = Reverted (ErrorMsg ''PERMIT_CALL_FAILED:'') [Called ForwardPermit PERMIT2 0 (Raw [2]) False []]"
    by (simp add: mock_env_def mock_code_def mock_dep_def exec0_def batch_def lowLevelCall_def
          record_action_def set_world_def shortRevertReason_def)
  from forward_once [where ex = "exec0 1 0 (chain0 USER 0 (0, 0))"
          and args = "batch [] [TOKA] 0 0 TOKT [[1, 161, 193, 100]] True"
          and d = 2 and env = mock_env and dep = mock_dep and sender = USER]
  have e: "list_all not_relay (result_trace (sweepAndSwap (entry 2 mock_env mock_dep) mock_env mock_dep USER
        (batch [] [TOKA] 0 0 TOKT [[1, 161, 193, 100]] True) (exec0 1 0 (chain0 USER 0 (0, 0)))))"
    by (auto simp: exec0_def batch_def)
  from run a b c e show ?thesis by simp
qed

text \<open>
  Claim C7 as stated (a non-empty payload is relayed exactly once) fails for an invocation
  that does not get as far as the relay: with lists of different lengths, or while the
  lock is busy, a payload that the registry would accept is not relayed at all.
\<close>

theorem forward_once_counterexample:
  "sweepAndSwap (entry 2 mock_env mock_dep) mock_env mock_dep USER
     \<lparr>permit2 = PERMIT2, permitCalldata = [1, 17, 119, 161, 40], tokens = [TOKA, TOKB],
      minPricesUSD = [0, 0], maxPricesUSD = [0, 0], priceDecimals = 8, targetToken = TOKT,
      swapCallData = [[1, 161, 193, 60]], partialSuccess = False\<rparr>
     (exec0 1 0 (chain0 USER 0 (0, 0)))
   = Reverted (ErrorMsg ''ARRAY_LENGTH_MISMATCH'') []
   \<and> sweepAndSwap (entry 2 mock_env mock_dep) mock_env mock_dep USER
        (batch [1, 17, 119, 161, 40] [TOKA] 0 0 TOKT [[1, 161, 193, 60]] True)
        (exec0 2 0 (chain0 USER 0 (0, 0)))
   = Reverted (ErrorMsg ''REENTRANCY'') []"
  by (simp add: sweepAndSwap_def nonReentrant_def sweepAndSwap_body_def exec0_def batch_def)

text \<open>
  Claim C10, as amended. An invocation with no assets (all four lists empty): while the
  lock is busy it reverts with \<^verbatim>\<open>REENTRANCY\<close>; otherwise, without a permit payload it
  returns and leaves the state, the events and the trace exactly as they were; with a
  payload it makes one external call, the relay, and emits nothing; it reverts if the
  relay failed, and returns if the relay succeeded with fewer than 68 bytes of returned
  data.
\<close>

theorem empty_batch:
  assumes no_assets: "tokens args = []" "minPricesUSD args = []" "maxPricesUSD args = []" "swapCallData args = []"
  shows "if status (st ex) \<noteq> 1
         then sweepAndSwap (entry d env dep) env dep sender args ex
                = Reverted (ErrorMsg ''REENTRANCY'') (trace ex)
         else if permitCalldata args = []
         then sweepAndSwap (entry d env dep) env dep sender args ex = Returned () ex
         else (case lowLevelCall (entry d env dep) env dep ForwardPermit (permit2 args) 0
                     (Raw (permitCalldata args)) (ex\<lparr>st := (st ex)\<lparr>status := 2\<rparr>\<rparr>) of
                 (ok, res, ex1) \<Rightarrow>
                   (\<not> ok \<longrightarrow>
                      sweepAndSwap (entry d env dep) env dep sender args ex
                        = Reverted
                            (case shortRevertReason dep (permitCalldata args) res of
                               None \<Rightarrow> DecodeFailure
                             | Some reason \<Rightarrow> ErrorMsg (''PERMIT_CALL_FAILED:'' @ reason))
                            (trace ex1))
                   \<and> (ok \<and> length res < 68 \<longrightarrow>
                        sweepAndSwap (entry d env dep) env dep sender args ex
                          = Returned () (ex1\<lparr>st := (st ex1)\<lparr>status := 1\<rparr>\<rparr>))
                   \<and> result_trace (sweepAndSwap (entry d env dep) env dep sender args ex) = trace ex1
                   \<and> logs ex1 = logs ex
                   \<and> trace ex1 = trace ex @ [Called ForwardPermit (permit2 args) 0
                                                (Raw (permitCalldata args)) ok res])"
proof (cases "status (st ex) \<noteq> 1")
  case True
  then show ?thesis by (simp add: sweepAndSwap_def nonReentrant_def)
next
  case False
  then have free: "status (st ex) = 1" by simp
  let ?ex2 = "ex\<lparr>st := (st ex)\<lparr>status := 2\<rparr>\<rparr>"
  have l2: "status (st ?ex2) \<noteq> 1" by simp
  have restored: "?ex2\<lparr>st := (st ?ex2)\<lparr>status := 1\<rparr>\<rparr> = ex" using free by simp
  have run: "sweepAndSwap (entry d env dep) env dep sender args ex =
      (case relay (entry d env dep) env dep args ?ex2 of
         Reverted r tr \<Rightarrow> Reverted r tr
       | Returned u ex' \<Rightarrow> Returned u (ex'\<lparr>st := (st ex')\<lparr>status := 1\<rparr>\<rparr>))"
  proof -
    have "sweepAndSwap_body (entry d env dep) env dep sender args ?ex2 =
           (case relay (entry d env dep) env dep args ?ex2 of
              Reverted r tr \<Rightarrow> Reverted r tr
            | Returned u ex1 \<Rightarrow> sweepLoop (entry d env dep) env dep sender args 0 ex1)"
      by (rule sweepAndSwap_body_relay) (simp_all add: no_assets)
    also have "\<dots> = relay (entry d env dep) env dep args ?ex2"
      by (simp add: sweepLoop_end no_assets split: result.splits)
    finally show ?thesis using free by (simp add: sweepAndSwap_def nonReentrant_def)
  qed
  show ?thesis
  proof (cases "permitCalldata args = []")
    case True
    then have "relay (entry d env dep) env dep args ?ex2 = Returned () ?ex2" by (simp add: relay_def)
    with True restored free show ?thesis by (simp add: run)
  next
    case ne: False
    obtain ok res ex1 where c: "lowLevelCall (entry d env dep) env dep ForwardPermit (permit2 args) 0
                     (Raw (permitCalldata args)) ?ex2 = (ok, res, ex1)"
      by (cases "lowLevelCall (entry d env dep) env dep ForwardPermit (permit2 args) 0
                     (Raw (permitCalldata args)) ?ex2") auto
    from lowLevelCall_frame[OF c l2] have f: "logs ex1 = logs ex"
      "trace ex1 = trace ex @ [Called ForwardPermit (permit2 args) 0 (Raw (permitCalldata args)) ok res]"
      by simp_all
    have r: "relay (entry d env dep) env dep args ?ex2 =
        (case shortRevertReason dep (permitCalldata args) res of
           None \<Rightarrow> Reverted DecodeFailure (trace ex1)
         | Some reason \<Rightarrow>
             if ok then Returned () ex1
             else Reverted (ErrorMsg (''PERMIT_CALL_FAILED:'' @ reason)) (trace ex1))"
      using ne c by (simp add: relay_def forwardPermit_call)
    have a: "sweepAndSwap (entry d env dep) env dep sender args ex
                        = Reverted
                            (case shortRevertReason dep (permitCalldata args) res of
                               None \<Rightarrow> DecodeFailure
                             | Some reason \<Rightarrow> ErrorMsg (''PERMIT_CALL_FAILED:'' @ reason))
                            (trace ex1)" if "\<not> ok"
      using that r by (simp add: run split: option.splits)
    have b: "sweepAndSwap (entry d env dep) env dep sender args ex
                          = Returned () (ex1\<lparr>st := (st ex1)\<lparr>status := 1\<rparr>\<rparr>)" if "ok" "length res < 68"
      using that r by (simp add: run shortRevertReason_short)
    have t: "result_trace (sweepAndSwap (entry d env dep) env dep sender args ex) = trace ex1"
      using r by (simp add: run split: option.splits)
    from free ne c f a b t show ?thesis by simp
  qed
qed

theorem empty_batch_witness:
  "sweepAndSwap (entry 2 mock_env mock_dep) mock_env mock_dep USER (batch [] [] 0 0 TOKT [] False)
     (exec0 1 0 (chain0 USER 0 (0, 0)))
     = Returned () (exec0 1 0 (chain0 USER 0 (0, 0)))
   \<and> map_option (\<lambda>ex. (logs ex, trace ex, status (st ex)))
        (returned (sweepAndSwap (entry 2 mock_env mock_dep) mock_env mock_dep USER
           (batch [1, 17, 17, 161, 0] [] 0 0 TOKT [] False) (exec0 1 0 (chain0 USER 0 (0, 0)))))
     = Some ([], [Called ForwardPermit PERMIT2 0 (Raw [1, 17, 17, 161, 0]) True (abi_encode_bool True)], 1)
   \<and> sweepAndSwap (entry 2 mock_env mock_dep) mock_env mock_dep USER (batch [3] [] 0 0 TOKT [] False)
        (exec0 1 0 (chain0 USER 0 (0, 0)))
     = Reverted (ErrorMsg ''PERMIT_CALL_FAILED:'') [Called ForwardPermit PERMIT2 0 (Raw [3]) False []]"
  using empty_batch [where ex = "exec0 1 0 (chain0 USER 0 (0, 0))" and args = "batch [] [] 0 0 TOKT [] False"
          and d = 2 and env = mock_env and dep = mock_dep and sender = USER]
        empty_batch [where ex = "exec0 1 0 (chain0 USER 0 (0, 0))"
          and args = "batch [1, 17, 17, 161, 0] [] 0 0 TOKT [] False"
          and d = 2 and env = mock_env and dep = mock_dep and sender = USER]
        empty_batch [where ex = "exec0 1 0 (chain0 USER 0 (0, 0))" and args = "batch [3] [] 0 0 TOKT [] False"
          and d = 2 and env = mock_env and dep = mock_dep and sender = USER]
  by (simp add: mock_env_def mock_code_def mock_dep_def mock_transferFrom_def chain0_def exec0_def
        batch_def lowLevelCall_def record_action_def set_world_def shortRevertReason_def
        abi_encode_bool_length)

text \<open>
  Claim C10 as stated (the call with an empty asset list always succeeds) fails when the
  registry rejects the payload, and for a nested invocation such as the one
  \<^verbatim>\<open>MockAggregatorReentrant\<close> makes.
\<close>

theorem empty_batch_counterexample:
  "sweepAndSwap (entry 2 mock_env mock_dep) mock_env mock_dep USER (batch [2] [] 0 0 TOKT [] True)
     (exec0 1 0 (chain0 USER 0 (0, 0)))
     = Reverted (ErrorMsg ''PERMIT_CALL_FAILED:'') [Called ForwardPermit PERMIT2 0 (Raw [2]) False []]
   \<and> sweepAndSwap (entry 1 mock_env mock_dep) mock_env mock_dep VENUE empty_args
     (exec0 2 0 (chain0 USER 0 (0, 0)))
     = Reverted (ErrorMsg ''REENTRANCY'') []"
  by (simp add: mock_defs sweeper_defs)

section \<open>Nested calls during an invocation\<close>

text \<open>
  The contract reaches external code through \<open>lowLevelCall\<close> only, and external code
  reaches the contract through the handler \<open>cb\<close> only. Under a busy lock a handler is
  consulted in states with a busy lock only, so two handlers that agree on those states
  give the same run of every helper, of an iteration, of the loop and of the body; and the
  guard sets the lock to busy before the body runs.
\<close>

lemma run_ext_agree:
  assumes ag: "\<forall>c e. status (st e) \<noteq> 1 \<longrightarrow> cb' c e = entry d env dep c e"
  shows "status (st ex) \<noteq> 1 \<Longrightarrow> run_ext cb' t ex = run_ext (entry d env dep) t ex"
proof (induction t arbitrary: ex)
  case (Return x1 x2a)
  then show ?case by simp
next
  case (Revert x)
  then show ?case by simp
next
  case (Callback w c k)
  let ?ex1 = "set_world w ex"
  have l1: "status (st ?ex1) \<noteq> 1" using Callback.prems by (simp add: set_world_def)
  have same: "cb' c ?ex1 = entry d env dep c ?ex1" using l1 ag by simp
  show ?case
  proof (cases "entry d env dep c ?ex1")
    case None
    have "k False (st ?ex1) \<in> range (k False)" "k False \<in> range k" by auto
    from Callback.IH[OF this(2) this(1) l1] None same show ?thesis by simp
  next
    case (Some ex2)
    from entry_frame[OF Some l1] l1 have l2: "status (st ex2) \<noteq> 1" by simp
    have "k True (st ex2) \<in> range (k True)" "k True \<in> range k" by auto
    from Callback.IH[OF this(2) this(1) l2] Some same show ?thesis by simp
  qed
qed

lemma lowLevelCall_agree:
  assumes ag: "\<forall>c e. status (st e) \<noteq> 1 \<longrightarrow> cb' c e = entry d env dep c e"
    and l: "status (st ex) \<noteq> 1"
  shows "lowLevelCall cb' env dep site tgt v data ex = lowLevelCall (entry d env dep) env dep site tgt v data ex"
  by (simp add: lowLevelCall_def run_ext_agree[of cb' d env dep, OF ag l])

lemma bind_agree:
  assumes "R' = R" and "traced n ex R"
    and "\<And>u ex1. status (st ex1) = status (st ex) \<Longrightarrow> f' u ex1 = f u ex1"
  shows "(case R' of Reverted r tr \<Rightarrow> Reverted r tr | Returned u ex1 \<Rightarrow> f' u ex1)
       = (case R of Reverted r tr \<Rightarrow> Reverted r tr | Returned u ex1 \<Rightarrow> f u ex1)"
  using assms by (auto simp: traced_def split: result.splits)

lemma call_agree:
  assumes ag: "\<forall>c e. status (st e) \<noteq> 1 \<longrightarrow> cb' c e = entry d env dep c e"
    and l: "status (st ex) \<noteq> 1"
    and k: "\<And>ok r ex1. status (st ex1) = status (st ex) \<Longrightarrow> g' ok r ex1 = g ok r ex1"
  shows "(case lowLevelCall cb' env dep site tgt v data ex of (ok, r, ex1) \<Rightarrow> g' ok r ex1)
       = (case lowLevelCall (entry d env dep) env dep site tgt v data ex of (ok, r, ex1) \<Rightarrow> g ok r ex1)"
proof -
  obtain ok r ex1 where c: "lowLevelCall (entry d env dep) env dep site tgt v data ex = (ok, r, ex1)"
    by (cases "lowLevelCall (entry d env dep) env dep site tgt v data ex") auto
  from lowLevelCall_frame[OF c l] have "status (st ex1) = status (st ex)" by simp
  from k[OF this] c show ?thesis by (simp add: lowLevelCall_agree[of cb' d env dep, OF ag l])
qed

lemma safeTransfer_agree:
  assumes ag: "\<forall>c e. status (st e) \<noteq> 1 \<longrightarrow> cb' c e = entry d env dep c e"
    and l: "status (st ex) \<noteq> 1"
  shows "safeTransfer cb' env dep token to v ex = safeTransfer (entry d env dep) env dep token to v ex"
  by (simp add: safeTransfer_def lowLevelCall_agree[of cb' d env dep, OF ag l])

lemma safeApprove_agree:
  assumes ag: "\<forall>c e. status (st e) \<noteq> 1 \<longrightarrow> cb' c e = entry d env dep c e"
    and l: "status (st ex) \<noteq> 1"
  shows "safeApprove cb' env dep token to v ex = safeApprove (entry d env dep) env dep token to v ex"
  by (simp add: safeApprove_def lowLevelCall_agree[of cb' d env dep, OF ag l])

lemma forwardPermit_agree:
  assumes ag: "\<forall>c e. status (st e) \<noteq> 1 \<longrightarrow> cb' c e = entry d env dep c e"
    and l: "status (st ex) \<noteq> 1"
  shows "forwardPermit cb' env dep p2 pcd ex = forwardPermit (entry d env dep) env dep p2 pcd ex"
  by (simp add: forwardPermit_def lowLevelCall_agree[of cb' d env dep, OF ag l])

lemma settle_agree:
  assumes ag: "\<forall>c e. status (st e) \<noteq> 1 \<longrightarrow> cb' c e = entry d env dep c e"
    and l: "status (st ex) \<noteq> 1"
  shows "settle cb' env dep sender args token amountIn balBefore ex
       = settle (entry d env dep) env dep sender args token amountIn balBefore ex"
proof (cases "targetToken args = 0")
  case True
  then show ?thesis
    by (simp add: settle_def Let_def lowLevelCall_agree[of cb' d env dep, OF ag l])
next
  case False
  have "(case queryBalanceOf env (targetToken args) (self dep) ex of
           Reverted r tr \<Rightarrow> Reverted r tr
         | Returned balAfter ex7 \<Rightarrow>
             (if balAfter > balBefore then
                (case safeTransfer cb' env dep (targetToken args) sender (balAfter - balBefore) ex7 of
                   Reverted r tr \<Rightarrow> Reverted r tr
                 | Returned u ex8 \<Rightarrow>
                     Returned ()
                       (emit (Swept sender token amountIn (targetToken args) (balAfter - balBefore)) ex8))
              else
                (case safeTransfer cb' env dep token sender amountIn ex7 of
                   Reverted r tr \<Rightarrow> Reverted r tr
                 | Returned u ex8 \<Rightarrow>
                     failToken args sender token ''NO_TARGET_RECEIVED''
                       (emit (SweepFailed sender token ''NO_TARGET_RECEIVED'') ex8))))
      = (case queryBalanceOf env (targetToken args) (self dep) ex of
           Reverted r tr \<Rightarrow> Reverted r tr
         | Returned balAfter ex7 \<Rightarrow>
             (if balAfter > balBefore then
                (case safeTransfer (entry d env dep) env dep (targetToken args) sender (balAfter - balBefore) ex7 of
                   Reverted r tr \<Rightarrow> Reverted r tr
                 | Returned u ex8 \<Rightarrow>
                     Returned ()
                       (emit (Swept sender token amountIn (targetToken args) (balAfter - balBefore)) ex8))
              else
                (case safeTransfer (entry d env dep) env dep token sender amountIn ex7 of
                   Reverted r tr \<Rightarrow> Reverted r tr
                 | Returned u ex8 \<Rightarrow>
                     failToken args sender token ''NO_TARGET_RECEIVED''
                       (emit (SweepFailed sender token ''NO_TARGET_RECEIVED'') ex8))))"
  proof (rule bind_agree[OF refl well_traced_traced[OF wt_queryBalanceOf]])
    fix balAfter and ex7 :: "'a exec"
    assume "status (st ex7) = status (st ex)"
    with l have l7: "status (st ex7) \<noteq> 1" by simp
    show "(if balAfter > balBefore then
                (case safeTransfer cb' env dep (targetToken args) sender (balAfter - balBefore) ex7 of
                   Reverted r tr \<Rightarrow> Reverted r tr
                 | Returned u ex8 \<Rightarrow>
                     Returned ()
                       (emit (Swept sender token amountIn (targetToken args) (balAfter - balBefore)) ex8))
              else
                (case safeTransfer cb' env dep token sender amountIn ex7 of
                   Reverted r tr \<Rightarrow> Reverted r tr
                 | Returned u ex8 \<Rightarrow>
                     failToken args sender token ''NO_TARGET_RECEIVED''
                       (emit (SweepFailed sender token ''NO_TARGET_RECEIVED'') ex8)))
        = (if balAfter > balBefore then
                (case safeTransfer (entry d env dep) env dep (targetToken args) sender (balAfter - balBefore) ex7 of
                   Reverted r tr \<Rightarrow> Reverted r tr
                 | Returned u ex8 \<Rightarrow>
                     Returned ()
                       (emit (Swept sender token amountIn (targetToken args) (balAfter - balBefore)) ex8))
              else
                (case safeTransfer (entry d env dep) env dep token sender amountIn ex7 of
                   Reverted r tr \<Rightarrow> Reverted r tr
                 | Returned u ex8 \<Rightarrow>
                     failToken args sender token ''NO_TARGET_RECEIVED''
                       (emit (SweepFailed sender token ''NO_TARGET_RECEIVED'') ex8)))"
      by (simp add: safeTransfer_agree[of cb' d env dep, OF ag l7])
  qed
  with False show ?thesis by (simp add: settle_def)
qed

lemma convert_agree:
  assumes ag: "\<forall>c e. status (st e) \<noteq> 1 \<longrightarrow> cb' c e = entry d env dep c e"
    and l: "status (st ex) \<noteq> 1"
  shows "convert cb' env dep sender args i token amountIn ex
       = convert (entry d env dep) env dep sender args i token amountIn ex"
  unfolding convert_def
  apply (rule bind_agree[OF safeApprove_agree[of cb' d env dep, OF ag l]
                            well_traced_traced[OF wt_safeApprove[OF l]]])
  subgoal premises p for u ex4
    apply (rule bind_agree[OF refl, where n = 0 and ex = ex4])
     apply (simp add: well_traced_traced wt_queryBalanceOf wt_Returned)
    subgoal premises q for balBefore ex5
      unfolding callAggregator_def
      apply (rule call_agree[of cb' d env dep, OF ag])
      using p q l apply simp
      subgoal premises r for success ret ex6
        using p q r l
        by (simp add: safeTransfer_agree[of cb' d env dep, OF ag] settle_agree[of cb' d env dep, OF ag])
      done
    done
  done

lemma pull_agree:
  assumes ag: "\<forall>c e. status (st e) \<noteq> 1 \<longrightarrow> cb' c e = entry d env dep c e"
    and l: "status (st ex) \<noteq> 1"
    and k: "\<And>ok ex1. status (st ex1) = status (st ex) \<Longrightarrow> g' ok ex1 = g ok ex1"
  shows "(case permit2Transfer cb' env dep p2 from to token amount ex of (ok, ex1) \<Rightarrow> g' ok ex1)
       = (case permit2Transfer (entry d env dep) env dep p2 from to token amount ex of
            (ok, ex1) \<Rightarrow> g ok ex1)"
proof -
  obtain ok r ex1 where c: "lowLevelCall (entry d env dep) env dep Permit2Transfer p2 0
      (Permit2TransferFrom from to token amount) ex = (ok, r, ex1)"
    by (cases "lowLevelCall (entry d env dep) env dep Permit2Transfer p2 0
      (Permit2TransferFrom from to token amount) ex") auto
  from lowLevelCall_frame[OF c l] have "status (st ex1) = status (st ex)" by simp
  from k[OF this] c show ?thesis
    by (simp add: permit2Transfer_def lowLevelCall_agree[of cb' d env dep, OF ag l])
qed

lemma sweepStep_agree:
  assumes ag: "\<forall>c e. status (st e) \<noteq> 1 \<longrightarrow> cb' c e = entry d env dep c e"
    and l: "status (st ex) \<noteq> 1"
  shows "sweepStep cb' env dep sender args i ex = sweepStep (entry d env dep) env dep sender args i ex"
  unfolding sweepStep_def Let_def
  apply (rule bind_agree[OF refl well_traced_traced[OF wt_priceCheck]])
  subgoal premises p for okPrice ex1
    apply (cases okPrice)
     prefer 2 apply simp
    apply simp
    apply (rule bind_agree[OF refl well_traced_traced[OF wt_queryBalanceOf]])
    subgoal premises q for amountIn ex2
      apply (cases "amountIn = 0")
       apply simp
      apply simp
      apply (rule pull_agree[of cb' d env dep, OF ag])
      using p q l apply simp
      subgoal premises r for pulled ex3
        using p q r l
        by (simp add: safeTransfer_agree[of cb' d env dep, OF ag] convert_agree[of cb' d env dep, OF ag])
      done
    done
  done

lemma sweepLoop_agree:
  fixes ex :: "'w exec"
  assumes ag: "\<forall>c e. status (st e) \<noteq> 1 \<longrightarrow> cb' c e = entry d env dep c e"
  shows "status (st ex) \<noteq> 1 \<Longrightarrow>
    sweepLoop cb' env dep sender args i ex = sweepLoop (entry d env dep) env dep sender args i ex"
proof (induction "length (tokens args) - i" arbitrary: i ex)
  case 0
  then show ?case by (simp add: sweepLoop_end)
next
  case (Suc n)
  then have lt: "i < length (tokens args)" and n: "n = length (tokens args) - Suc i" by simp_all
  have "(case sweepStep cb' env dep sender args i ex of
           Reverted r tr \<Rightarrow> Reverted r tr
         | Returned u ex' \<Rightarrow> sweepLoop cb' env dep sender args (Suc i) ex')
      = (case sweepStep (entry d env dep) env dep sender args i ex of
           Reverted r tr \<Rightarrow> Reverted r tr
         | Returned u ex' \<Rightarrow> sweepLoop (entry d env dep) env dep sender args (Suc i) ex')"
  proof (rule bind_agree[OF sweepStep_agree[of cb' d env dep, OF ag Suc.prems] traced_sweepStep[OF Suc.prems]])
    fix u and ex1 :: "'w exec"
    assume "status (st ex1) = status (st ex)"
    with Suc.prems have "status (st ex1) \<noteq> 1" by simp
    from Suc.hyps(1)[OF n this]
    show "sweepLoop cb' env dep sender args (Suc i) ex1
        = sweepLoop (entry d env dep) env dep sender args (Suc i) ex1" .
  qed
  with lt show ?case by (simp add: sweepLoop_step)
qed

lemma sweepAndSwap_agree:
  assumes ag: "\<forall>c e. status (st e) \<noteq> 1 \<longrightarrow> cb' c e = entry d env dep c e"
  shows "sweepAndSwap cb' env dep sender args ex = sweepAndSwap (entry d env dep) env dep sender args ex"
proof -
  have body: "sweepAndSwap_body cb' env dep sender args ex2
            = sweepAndSwap_body (entry d env dep) env dep sender args ex2"
    if l2: "status (st ex2) \<noteq> 1" for ex2 :: "'a exec"
  proof -
    have r: "relay cb' env dep args ex2 = relay (entry d env dep) env dep args ex2"
      by (simp add: relay_def forwardPermit_agree[of cb' d env dep, OF ag l2])
    have "(case relay cb' env dep args ex2 of
             Reverted r tr \<Rightarrow> Reverted r tr
           | Returned u ex1 \<Rightarrow> sweepLoop cb' env dep sender args 0 ex1)
        = (case relay (entry d env dep) env dep args ex2 of
             Reverted r tr \<Rightarrow> Reverted r tr
           | Returned u ex1 \<Rightarrow> sweepLoop (entry d env dep) env dep sender args 0 ex1)"
    proof (cases "relay (entry d env dep) env dep args ex2")
      case (Reverted r tr)
      then show ?thesis by (simp add: r)
    next
      case (Returned u ex1)
      from relay_frame[OF Returned l2] l2 have "status (st ex1) \<noteq> 1" by simp
      from sweepLoop_agree[of cb' d env dep, OF ag this] Returned show ?thesis
        by (simp add: r)
    qed
    then show ?thesis by (simp add: sweepAndSwap_body_def relay_def)
  qed
  show ?thesis by (simp add: sweepAndSwap_def nonReentrant_def body)
qed

lemma entry_depth:
  "status (st ex) \<noteq> 1 \<Longrightarrow> entry (Suc d) env dep c ex = entry (Suc d') env dep c ex"
  by (cases c) (simp_all add: sweepAndSwap_def nonReentrant_def)

section \<open>Reentrancy\<close>

text \<open>
  Claim C2, as amended. While the lock is busy every call of \<^verbatim>\<open>sweepAndSwap\<close> reverts
  with \<^verbatim>\<open>REENTRANCY\<close> before doing anything, so as a nested call it fails and leaves no
  effect. An invocation that starts with the lock free runs its body with the lock set to
  busy, and an external call made while the lock is busy leaves it busy. So an invocation,
  whatever the state of the lock when it starts, consults the contract's entry points on
  behalf of the external code it runs only in states where the lock is busy: any handler
  of nested calls that agrees with the entry points on those states gives the same run,
  and so does in particular the handler that rejects every nested \<^verbatim>\<open>sweepAndSwap\<close>
  outright. After an invocation that started with the lock free, the lock is free again
  whether it returned or reverted. A venue that, like \<^verbatim>\<open>MockAggregatorReentrant\<close>, makes
  the nested call and reverts when it failed is seen by the outer invocation as a failed
  aggregator call with nothing changed.
\<close>

theorem reentrancy_exclusion:
  "(status (st ex) \<noteq> 1 \<longrightarrow>
      sweepAndSwap cb env dep sender args ex = Reverted (ErrorMsg ''REENTRANCY'') (trace ex)
      \<and> entry d env dep (CallSweepAndSwap sender args) ex = None)
   \<and> ((\<forall>c e. status (st e) \<noteq> 1 \<longrightarrow> cb' c e = entry d env dep c e) \<longrightarrow>
        sweepAndSwap cb' env dep sender args ex = sweepAndSwap (entry d env dep) env dep sender args ex)
   \<and> sweepAndSwap (\<lambda>c e. case c of
                            CallSweepAndSwap s a \<Rightarrow> None
                          | CallSetAggregator s a \<Rightarrow> entry d env dep c e
                          | CallSetPriceOracle s a \<Rightarrow> entry d env dep c e) env dep sender args ex
       = sweepAndSwap (entry d env dep) env dep sender args ex
   \<and> (status (st ex) \<noteq> 1 \<and> lowLevelCall (entry d env dep) env dep site tgt v data ex = (ok, r, ex1) \<longrightarrow>
        status (st ex1) = status (st ex))
   \<and> (status (st ex) = 1 \<longrightarrow> status (st (after ex (sweepAndSwap cb env dep sender args ex))) = 1)
   \<and> (status (st ex) \<noteq> 1
        \<and> ext_code env (aggregator (st ex)) (self dep) 0 (Raw payload) (st ex)
            = Callback w (CallSweepAndSwap caller nested) k
        \<and> k False (st (set_world w ex)) = Revert rd \<longrightarrow>
        callAggregator (entry d env dep) env dep payload ex
          = (False, rd, record_action (Called CallAggregator (aggregator (st ex)) 0 (Raw payload) False rd) ex))
   \<and> (status (st ex) = 1 \<longrightarrow>
        sweepAndSwap cb env dep sender args ex
          = (case sweepAndSwap_body cb env dep sender args (ex\<lparr>st := (st ex)\<lparr>status := 2\<rparr>\<rparr>) of
               Reverted r tr \<Rightarrow> Reverted r tr
             | Returned u ex' \<Rightarrow> Returned u (ex'\<lparr>st := (st ex')\<lparr>status := 1\<rparr>\<rparr>)))"
proof -
  have body: "sweepAndSwap cb env dep sender args ex
          = (case sweepAndSwap_body cb env dep sender args (ex\<lparr>st := (st ex)\<lparr>status := 2\<rparr>\<rparr>) of
               Reverted r tr \<Rightarrow> Reverted r tr
             | Returned u ex' \<Rightarrow> Returned u (ex'\<lparr>st := (st ex')\<lparr>status := 1\<rparr>\<rparr>))"
    if "status (st ex) = 1"
    using that by (simp add: sweepAndSwap_def nonReentrant_def)
  have a: "sweepAndSwap cb env dep sender args ex = Reverted (ErrorMsg ''REENTRANCY'') (trace ex)"
    if "status (st ex) \<noteq> 1"
    using that by (simp add: sweepAndSwap_def nonReentrant_def)
  have inflight: "sweepAndSwap cb' env dep sender args ex = sweepAndSwap (entry d env dep) env dep sender args ex"
    if "\<forall>c e. status (st e) \<noteq> 1 \<longrightarrow> cb' c e = entry d env dep c e"
    using that by (rule sweepAndSwap_agree)
  have rejecting: "sweepAndSwap (\<lambda>c e. case c of
                            CallSweepAndSwap s a \<Rightarrow> None
                          | CallSetAggregator s a \<Rightarrow> entry d env dep c e
                          | CallSetPriceOracle s a \<Rightarrow> entry d env dep c e) env dep sender args ex
       = sweepAndSwap (entry d env dep) env dep sender args ex"
    by (rule sweepAndSwap_agree) (auto split: sweeper_call.splits simp: entry_locked)
  have b: "status (st ex1) = status (st ex)"
    if "status (st ex) \<noteq> 1" "lowLevelCall (entry d env dep) env dep site tgt v data ex = (ok, r, ex1)"
    using lowLevelCall_frame[OF that(2,1)] by simp
  have c: "status (st (after ex (sweepAndSwap cb env dep sender args ex))) = 1" if "status (st ex) = 1"
    using that by (simp add: sweepAndSwap_def nonReentrant_def split: result.splits)
  have e: "callAggregator (entry d env dep) env dep payload ex
          = (False, rd, record_action (Called CallAggregator (aggregator (st ex)) 0 (Raw payload) False rd) ex)"
    if "status (st ex) \<noteq> 1"
      "ext_code env (aggregator (st ex)) (self dep) 0 (Raw payload) (st ex) = Callback w (CallSweepAndSwap caller nested) k"
      "k False (st (set_world w ex)) = Revert rd"
  proof -
    have "status (st (set_world w ex)) \<noteq> 1" using that(1) by (simp add: set_world_def)
    then have "entry d env dep (CallSweepAndSwap caller nested) (set_world w ex) = None"
      by (rule entry_locked)
    with that(2,3) show ?thesis by (simp add: callAggregator_def lowLevelCall_def)
  qed
  from a inflight rejecting b c e body entry_locked[of ex d env dep sender args] show ?thesis by blast
qed

theorem reentrancy_exclusion_witness:
  "sweepAndSwap (entry 1 mock_env mock_dep) mock_env mock_dep VENUE empty_args (exec0 2 0 (chain0 USER 0 (0, 0)))
     = Reverted (ErrorMsg ''REENTRANCY'') []
   \<and> callAggregator (entry 2 mock_env mock_dep) mock_env mock_dep [2, 0, 0, 0] (exec0 2 0 (chain0 USER 0 (0, 0)))
     = (False, [], record_action (Called CallAggregator VENUE 0 (Raw [2, 0, 0, 0]) False [])
                     (exec0 2 0 (chain0 USER 0 (0, 0))))
   \<and> status (st (after (exec0 1 0 (chain0 USER 0 (0, 0)))
        (sweepAndSwap (entry 2 mock_env mock_dep) mock_env mock_dep USER
           (batch [] [TOKA] 0 0 TOKT [[2, 0, 0, 0]] False) (exec0 1 0 (chain0 USER 0 (0, 0)))))) = 1
   \<and> sweepAndSwap (entry 2 mock_env mock_dep) mock_env mock_dep USER
        (batch [] [TOKA] 0 0 TOKT [[2, 0, 0, 0]] False) (exec0 1 0 (chain0 USER 0 (0, 0)))
     = Reverted (ErrorMsg ''AGGREGATOR_CALL_FAILED'')
        [Queried (BalanceOf TOKA USER),
         Called Permit2Transfer PERMIT2 0 (Permit2TransferFrom USER SWEEPER TOKA 100) True (abi_encode_bool True),
         Called SafeApprove TOKA 0 (Erc20Approve VENUE 100) True (abi_encode_bool True),
         Queried (BalanceOf TOKT SWEEPER),
         Called CallAggregator VENUE 0 (Raw [2, 0, 0, 0]) False [],
         Called SafeTransfer TOKA 0 (Erc20Transfer USER 100) True (abi_encode_bool True)]
   \<and> sweepAndSwap (entry (Suc 0) mock_env mock_dep) mock_env mock_dep USER
        (batch [] [TOKA] 0 0 TOKT [[3, 0, 0, 0]] True) (exec0 1 0 (chain0 USER 0 (0, 0)))
     = sweepAndSwap (entry (Suc (Suc 0)) mock_env mock_dep) mock_env mock_dep USER
        (batch [] [TOKA] 0 0 TOKT [[3, 0, 0, 0]] True) (exec0 1 0 (chain0 USER 0 (0, 0)))"
proof -
  have venue: "ext_code mock_env (aggregator (st (exec0 2 0 (chain0 USER 0 (0, 0))))) (self mock_dep) 0
                 (Raw [2, 0, 0, 0]) (st (exec0 2 0 (chain0 USER 0 (0, 0))))
               = Callback (chain0 USER 0 (0, 0)) (CallSweepAndSwap VENUE empty_args)
                   (\<lambda>ok s. if \<not> ok then Revert [] else Return [] (world s))"
    by (simp add: mock_env_def mock_code_def venue_code_def mock_dep_def exec0_def)
  have rejected: "sweepAndSwap (\<lambda>c e. case c of
                            CallSweepAndSwap s a \<Rightarrow> None
                          | CallSetAggregator s a \<Rightarrow> entry 2 mock_env mock_dep c e
                          | CallSetPriceOracle s a \<Rightarrow> entry 2 mock_env mock_dep c e)
        mock_env mock_dep USER
        (batch [] [TOKA] 0 0 TOKT [[2, 0, 0, 0]] False) (exec0 1 0 (chain0 USER 0 (0, 0)))
     = Reverted (ErrorMsg ''AGGREGATOR_CALL_FAILED'')
        [Queried (BalanceOf TOKA USER),
         Called Permit2Transfer PERMIT2 0 (Permit2TransferFrom USER SWEEPER TOKA 100) True (abi_encode_bool True),
         Called SafeApprove TOKA 0 (Erc20Approve VENUE 100) True (abi_encode_bool True),
         Queried (BalanceOf TOKT SWEEPER),
         Called CallAggregator VENUE 0 (Raw [2, 0, 0, 0]) False [],
         Called SafeTransfer TOKA 0 (Erc20Transfer USER 100) True (abi_encode_bool True)]"
    by (simp add: mock_defs sweeper_defs)
  note locked = reentrancy_exclusion [where ex = "exec0 2 0 (chain0 USER 0 (0, 0))"
      and cb = "entry 1 mock_env mock_dep" and cb' = "entry 1 mock_env mock_dep"
      and env = mock_env and dep = mock_dep and sender = VENUE and args = empty_args and d = 2
      and payload = "[2, 0, 0, 0]" and w = "chain0 USER 0 (0, 0)" and caller = VENUE and nested = empty_args
      and k = "\<lambda>ok s. if \<not> ok then Revert [] else Return [] (world s)" and rd = "[]"
      and site = CallAggregator and tgt = VENUE and v = 0 and data = "Raw []" and ok = True and r = "[]"
      and ?ex1.0 = "exec0 2 0 (chain0 USER 0 (0, 0))"]
  have busy: "status (st (exec0 2 0 (chain0 USER 0 (0, 0)))) \<noteq> 1" by (simp add: exec0_def)
  from locked [THEN conjunct1, THEN mp, OF busy, THEN conjunct1]
  have a: "sweepAndSwap (entry 1 mock_env mock_dep) mock_env mock_dep VENUE empty_args (exec0 2 0 (chain0 USER 0 (0, 0)))
     = Reverted (ErrorMsg ''REENTRANCY'') []"
    by (simp add: exec0_def)
  have k: "(\<lambda>ok s. if \<not> ok then Revert [] else Return [] (world s)) False
             (st (set_world (chain0 USER 0 (0, 0)) (exec0 2 0 (chain0 USER 0 (0, 0))))) = Revert []"
    by simp
  from locked [THEN conjunct2, THEN conjunct2, THEN conjunct2, THEN conjunct2, THEN conjunct2,
      THEN conjunct1, THEN mp, OF conjI [OF busy conjI [OF venue k]]]
  have b: "callAggregator (entry 2 mock_env mock_dep) mock_env mock_dep [2, 0, 0, 0] (exec0 2 0 (chain0 USER 0 (0, 0)))
     = (False, [], record_action (Called CallAggregator VENUE 0 (Raw [2, 0, 0, 0]) False [])
                     (exec0 2 0 (chain0 USER 0 (0, 0))))"
    by (simp add: exec0_def)
  note outer = reentrancy_exclusion [where ex = "exec0 1 0 (chain0 USER 0 (0, 0))"
      and cb = "entry 2 mock_env mock_dep" and cb' = "entry 2 mock_env mock_dep"
      and env = mock_env and dep = mock_dep and sender = USER and d = 2
      and args = "batch [] [TOKA] 0 0 TOKT [[2, 0, 0, 0]] False"
      and payload = "[]" and w = "chain0 USER 0 (0, 0)" and caller = VENUE and nested = empty_args
      and k = "\<lambda>ok s. Revert []" and rd = "[]"
      and site = CallAggregator and tgt = VENUE and v = 0 and data = "Raw []" and ok = True and r = "[]"
      and ?ex1.0 = "exec0 1 0 (chain0 USER 0 (0, 0))"]
  have free: "status (st (exec0 1 0 (chain0 USER 0 (0, 0)))) = 1" by (simp add: exec0_def)
  from outer [THEN conjunct2, THEN conjunct2, THEN conjunct2, THEN conjunct2, THEN conjunct1, THEN mp, OF free]
  have c: "status (st (after (exec0 1 0 (chain0 USER 0 (0, 0)))
        (sweepAndSwap (entry 2 mock_env mock_dep) mock_env mock_dep USER
           (batch [] [TOKA] 0 0 TOKT [[2, 0, 0, 0]] False) (exec0 1 0 (chain0 USER 0 (0, 0)))))) = 1" .
  from outer [THEN conjunct2, THEN conjunct2, THEN conjunct1]
  have same: "sweepAndSwap (\<lambda>c e. case c of
                            CallSweepAndSwap s a \<Rightarrow> None
                          | CallSetAggregator s a \<Rightarrow> entry 2 mock_env mock_dep c e
                          | CallSetPriceOracle s a \<Rightarrow> entry 2 mock_env mock_dep c e)
        mock_env mock_dep USER
        (batch [] [TOKA] 0 0 TOKT [[2, 0, 0, 0]] False) (exec0 1 0 (chain0 USER 0 (0, 0)))
      = sweepAndSwap (entry 2 mock_env mock_dep) mock_env mock_dep USER
        (batch [] [TOKA] 0 0 TOKT [[2, 0, 0, 0]] False) (exec0 1 0 (chain0 USER 0 (0, 0)))" .
  have ag: "\<forall>c e. status (st e) \<noteq> 1 \<longrightarrow>
              entry (Suc 0) mock_env mock_dep c e = entry (Suc (Suc 0)) mock_env mock_dep c e"
    by (intro allI impI entry_depth)
  from reentrancy_exclusion [where cb' = "entry (Suc 0) mock_env mock_dep" and d = "Suc (Suc 0)"
      and cb = "entry 2 mock_env mock_dep"
      and env = mock_env and dep = mock_dep and sender = USER
      and args = "batch [] [TOKA] 0 0 TOKT [[3, 0, 0, 0]] True" and ex = "exec0 1 0 (chain0 USER 0 (0, 0))"
      and payload = "[]" and w = "chain0 USER 0 (0, 0)" and caller = VENUE and nested = empty_args
      and k = "\<lambda>ok s. Revert []" and rd = "[]"
      and site = CallAggregator and tgt = VENUE and v = 0 and data = "Raw []" and ok = True and r = "[]"
      and ?ex1.0 = "exec0 1 0 (chain0 USER 0 (0, 0))", THEN conjunct2, THEN conjunct1, THEN mp, OF ag]
  have d5: "sweepAndSwap (entry (Suc 0) mock_env mock_dep) mock_env mock_dep USER
        (batch [] [TOKA] 0 0 TOKT [[3, 0, 0, 0]] True) (exec0 1 0 (chain0 USER 0 (0, 0)))
     = sweepAndSwap (entry (Suc (Suc 0)) mock_env mock_dep) mock_env mock_dep USER
        (batch [] [TOKA] 0 0 TOKT [[3, 0, 0, 0]] True) (exec0 1 0 (chain0 USER 0 (0, 0)))" .
  from rejected same have run: "sweepAndSwap (entry 2 mock_env mock_dep) mock_env mock_dep USER
        (batch [] [TOKA] 0 0 TOKT [[2, 0, 0, 0]] False) (exec0 1 0 (chain0 USER 0 (0, 0)))
     = Reverted (ErrorMsg ''AGGREGATOR_CALL_FAILED'')
        [Queried (BalanceOf TOKA USER),
         Called Permit2Transfer PERMIT2 0 (Permit2TransferFrom USER SWEEPER TOKA 100) True (abi_encode_bool True),
         Called SafeApprove TOKA 0 (Erc20Approve VENUE 100) True (abi_encode_bool True),
         Queried (BalanceOf TOKT SWEEPER),
         Called CallAggregator VENUE 0 (Raw [2, 0, 0, 0]) False [],
         Called SafeTransfer TOKA 0 (Erc20Transfer USER 100) True (abi_encode_bool True)]"
    by (simp only:)
  show ?thesis by (intro conjI a b c run d5)
qed

text \<open>
  Claim C2 as stated (every nested call makes the outer operation observe a venue-call
  failure) fails for a venue that ignores the outcome of its nested call: the nested call
  is rejected, the aggregator call succeeds, and the outer invocation goes on to
  settlement, with an ERC20 target (nothing received, refund) and with the native target
  (\<^verbatim>\<open>Swept\<close> with amount 0).
\<close>

theorem reentrancy_exclusion_counterexample:
  "entry 2 mock_env mock_dep (CallSweepAndSwap VENUE empty_args) (exec0 2 0 (chain0 USER 0 (0, 0))) = None
   \<and> fst (callAggregator (entry 2 mock_env mock_dep) mock_env mock_dep [3, 0, 0, 0]
            (exec0 2 0 (chain0 USER 0 (0, 0)))) = True
   \<and> map_option (\<lambda>ex. (logs ex, trace ex))
        (returned (sweepAndSwap (entry 2 mock_env mock_dep) mock_env mock_dep USER
           (batch [] [TOKA] 0 0 TOKT [[3, 0, 0, 0]] True) (exec0 1 0 (chain0 USER 0 (0, 0)))))
     = Some ([SweepFailed USER TOKA ''NO_TARGET_RECEIVED''],
        [Queried (BalanceOf TOKA USER),
         Called Permit2Transfer PERMIT2 0 (Permit2TransferFrom USER SWEEPER TOKA 100) True (abi_encode_bool True),
         Called SafeApprove TOKA 0 (Erc20Approve VENUE 100) True (abi_encode_bool True),
         Queried (BalanceOf TOKT SWEEPER),
         Called CallAggregator VENUE 0 (Raw [3, 0, 0, 0]) True [],
         Queried (BalanceOf TOKT SWEEPER),
         Called SafeTransfer TOKA 0 (Erc20Transfer USER 100) True (abi_encode_bool True)])
   \<and> map_option (\<lambda>ex. (logs ex, trace ex))
        (returned (sweepAndSwap (entry 2 mock_env mock_dep) mock_env mock_dep USER
           (batch [] [TOKA] 0 0 0 [[3, 0, 0, 0]] False) (exec0 1 0 (chain0 USER 0 (0, 0)))))
     = Some ([Swept USER TOKA 100 0 0],
        [Queried (BalanceOf TOKA USER),
         Called Permit2Transfer PERMIT2 0 (Permit2TransferFrom USER SWEEPER TOKA 100) True (abi_encode_bool True),
         Called SafeApprove TOKA 0 (Erc20Approve VENUE 100) True (abi_encode_bool True),
         Called CallAggregator VENUE 0 (Raw [3, 0, 0, 0]) True []])"
  by (simp add: mock_defs sweeper_defs entry_locked)

section \<open>Input validation\<close>

text \<open>
  Claim C6. When the four lists (tokens, minimum prices, maximum prices, swap payloads) do
  not all have the same length, \<^verbatim>\<open>sweepAndSwap\<close> reverts whatever \<^verbatim>\<open>partialSuccess\<close> is,
  with the trace it started with (the permit was not forwarded and no token was touched),
  and the caller's state is unchanged. The message is that of the first failed
  \<^verbatim>\<open>require\<close>: the guard's, then the two length checks.
\<close>

theorem length_mismatch_aborts:
  assumes "\<not> (length (tokens args) = length (minPricesUSD args)
              \<and> length (tokens args) = length (maxPricesUSD args)
              \<and> length (tokens args) = length (swapCallData args))"
  shows "sweepAndSwap cb env dep sender args ex =
           Reverted (ErrorMsg (if \<not> (status (st ex) = 1) then ''REENTRANCY''
                               else if \<not> (length (tokens args) = length (swapCallData args))
                               then ''ARRAY_LENGTH_MISMATCH'' else ''PRICE_ARRAY_MISMATCH''))
                    (trace ex)
         \<and> after ex (sweepAndSwap cb env dep sender args ex) = ex"
proof -
  have "sweepAndSwap_body cb env dep sender args ex' =
          Reverted (ErrorMsg (if \<not> (length (tokens args) = length (swapCallData args))
                              then ''ARRAY_LENGTH_MISMATCH'' else ''PRICE_ARRAY_MISMATCH'')) (trace ex')"
    for ex' :: "'a exec"
    using assms by (auto simp: sweepAndSwap_body_def)
  then show ?thesis
    by (simp add: sweepAndSwap_def nonReentrant_def)
qed

theorem length_mismatch_aborts_witness:
  "sweepAndSwap (entry 1 mock_env mock_dep) mock_env mock_dep USER
     \<lparr>permit2 = PERMIT2, permitCalldata = [1], tokens = [TOKA], minPricesUSD = [0],
      maxPricesUSD = [0], priceDecimals = 8, targetToken = TOKT, swapCallData = [],
      partialSuccess = True\<rparr> (exec0 1 0 (chain0 USER 0 (0, 0)))
   = Reverted (ErrorMsg ''ARRAY_LENGTH_MISMATCH'') []"
  using length_mismatch_aborts [of
     "\<lparr>permit2 = PERMIT2, permitCalldata = [1], tokens = [TOKA], minPricesUSD = [0],
      maxPricesUSD = [0], priceDecimals = 8, targetToken = TOKT, swapCallData = [],
      partialSuccess = True\<rparr>" "entry 1 mock_env mock_dep" mock_env mock_dep USER "exec0 1 0 (chain0 USER 0 (0, 0))"]
  by (simp add: exec0_def)

section \<open>Value left in the contract\<close>

text \<open>
  Claim C1 (no stranded value: after a non-aborted invocation every asset is converted and
  settled, refunded in full, or was never pulled) does not hold on the native-asset path.
  Here a contract wallet that does not accept native transfers sweeps \<open>TOKA\<close> to the
  native asset in best-effort mode, the contract holds 5 of the native asset, and the venue
  returns without taking the tokens: the invocation returns, reports
  \<^verbatim>\<open>ETH_TRANSFER_FAILED\<close>, makes no transfer back, and the 100 pulled \<open>TOKA\<close> stay with the
  contract.
\<close>

theorem stranded_value_example:
  "map_option (\<lambda>ex. (logs ex, trace ex, erc20 (world (st ex)) TOKA WALLET, erc20 (world (st ex)) TOKA SWEEPER,
                 native (world (st ex)) SWEEPER))
     (returned (sweepAndSwap (entry 2 mock_env mock_dep) mock_env mock_dep WALLET
        (batch [] [TOKA] 0 0 0 [[4, 0, 0, 0]] True) (exec0 1 0 (chain0 WALLET 5 (0, 0)))))
   = Some ([SweepFailed WALLET TOKA ''ETH_TRANSFER_FAILED''],
       [Queried (BalanceOf TOKA WALLET),
        Called Permit2Transfer PERMIT2 0 (Permit2TransferFrom WALLET SWEEPER TOKA 100) True (abi_encode_bool True),
        Called SafeApprove TOKA 0 (Erc20Approve VENUE 100) True (abi_encode_bool True),
        Called CallAggregator VENUE 0 (Raw [4, 0, 0, 0]) True [],
        Called SendNative WALLET 5 (Raw []) False []],
       0, 100, 5)"
  by (simp add: mock_defs sweeper_defs)

text \<open>
  Claim C3 (a zero output after a successful pull and venue call is refunded and reported
  as \<^verbatim>\<open>NO_TARGET_RECEIVED\<close>, for any target including the native asset) does not hold for
  the native asset: with a native balance of zero after the venue call the contract emits
  \<^verbatim>\<open>Swept\<close> with amount 0 and refunds nothing, whether the venue left the tokens with the
  contract (first run) or took them as \<^verbatim>\<open>MockAggregator.swap\<close> does for a zero target
  (second run). With an ERC20 target the same venue leads to the refund (third run).
\<close>

theorem zero_output_example:
  "map_option (\<lambda>ex. (logs ex, trace ex, erc20 (world (st ex)) TOKA USER, erc20 (world (st ex)) TOKA SWEEPER))
     (returned (sweepAndSwap (entry 2 mock_env mock_dep) mock_env mock_dep USER
        (batch [] [TOKA] 0 0 0 [[4, 0, 0, 0]] True) (exec0 1 0 (chain0 USER 0 (0, 0)))))
   = Some ([Swept USER TOKA 100 0 0],
       [Queried (BalanceOf TOKA USER),
        Called Permit2Transfer PERMIT2 0 (Permit2TransferFrom USER SWEEPER TOKA 100) True (abi_encode_bool True),
        Called SafeApprove TOKA 0 (Erc20Approve VENUE 100) True (abi_encode_bool True),
        Called CallAggregator VENUE 0 (Raw [4, 0, 0, 0]) True []],
       0, 100)
   \<and> map_option (\<lambda>ex. (logs ex, erc20 (world (st ex)) TOKA USER, erc20 (world (st ex)) TOKA SWEEPER))
     (returned (sweepAndSwap (entry 2 mock_env mock_dep) mock_env mock_dep USER
        (batch [] [TOKA] 0 0 0 [[1, 161, 0, 100]] True) (exec0 1 0 (chain0 USER 0 (0, 0)))))
   = Some ([Swept USER TOKA 100 0 0], 0, 0)
   \<and> map_option (\<lambda>ex. (logs ex, trace ex, erc20 (world (st ex)) TOKA USER, erc20 (world (st ex)) TOKA SWEEPER))
     (returned (sweepAndSwap (entry 2 mock_env mock_dep) mock_env mock_dep USER
        (batch [] [TOKA] 0 0 TOKT [[4, 0, 0, 0]] True) (exec0 1 0 (chain0 USER 0 (0, 0)))))
   = Some ([SweepFailed USER TOKA ''NO_TARGET_RECEIVED''],
       [Queried (BalanceOf TOKA USER),
        Called Permit2Transfer PERMIT2 0 (Permit2TransferFrom USER SWEEPER TOKA 100) True (abi_encode_bool True),
        Called SafeApprove TOKA 0 (Erc20Approve VENUE 100) True (abi_encode_bool True),
        Queried (BalanceOf TOKT SWEEPER),
        Called CallAggregator VENUE 0 (Raw [4, 0, 0, 0]) True [],
        Queried (BalanceOf TOKT SWEEPER),
        Called SafeTransfer TOKA 0 (Erc20Transfer USER 100) True (abi_encode_bool True)],
       100, 0)"
  by (simp add: mock_defs sweeper_defs)

end
